theory Spec2Isabelle
  imports Main "HOL-Library.Word"
begin

unbundle bit_operations_syntax

chapter \<open>The embedding\<close>

section \<open>Method identities (crypto/evp/evp_fetch.c)\<close>

text \<open>
  C's \<open>unsigned int\<close> and \<open>uint32_t\<close> are 32-bit words. \<open>ossl_assert\<close> is read as in a
  release build, where it is the truth value of its argument, so a failed assertion makes
  \<open>method_id\<close> return 0.
\<close>

type_synonym uint32 = "32 word"

definition ossl_assert :: "bool \<Rightarrow> bool" where
  "ossl_assert x = x"

definition method_id :: "uint32 \<Rightarrow> uint32 \<Rightarrow> uint32" where
  "method_id operation_id name_id =
     (if \<not> ossl_assert (name_id < push_bit 24 1 \<or> operation_id < push_bit 8 1)
         \<or> \<not> ossl_assert (name_id > 0 \<and> operation_id > 0)
      then 0
      else (push_bit 8 name_id AND 0xFFFFFF00) OR (operation_id AND 0x000000FF))"

section \<open>Digest implementation records (the digest adapter of crypto/evp/digest.c)\<close>

text \<open>
  Addresses stand for C pointers; \<open>None\<close> is the null pointer. A function pointer is the
  address of provider code. A dispatch table is the list of its entries in memory order;
  the scan stops at the first entry whose function id is 0, or at the end of the list.
\<close>

type_synonym addr = nat
type_synonym fnptr = nat

record OSSL_DISPATCH =
  function_id :: int
  function_ptr :: "fnptr option"

definition OSSL_FUNC_DIGEST_NEWCTX :: int where "OSSL_FUNC_DIGEST_NEWCTX = 1"
definition OSSL_FUNC_DIGEST_INIT :: int where "OSSL_FUNC_DIGEST_INIT = 2"
definition OSSL_FUNC_DIGEST_UPDATE :: int where "OSSL_FUNC_DIGEST_UPDATE = 3"
definition OSSL_FUNC_DIGEST_FINAL :: int where "OSSL_FUNC_DIGEST_FINAL = 4"
definition OSSL_FUNC_DIGEST_DIGEST :: int where "OSSL_FUNC_DIGEST_DIGEST = 5"
definition OSSL_FUNC_DIGEST_FREECTX :: int where "OSSL_FUNC_DIGEST_FREECTX = 6"
definition OSSL_FUNC_DIGEST_DUPCTX :: int where "OSSL_FUNC_DIGEST_DUPCTX = 7"
definition OSSL_FUNC_DIGEST_SIZE :: int where "OSSL_FUNC_DIGEST_SIZE = 8"
definition OSSL_FUNC_DIGEST_BLOCK_SIZE :: int where "OSSL_FUNC_DIGEST_BLOCK_SIZE = 9"
definition OSSL_FUNC_DIGEST_SET_PARAMS :: int where "OSSL_FUNC_DIGEST_SET_PARAMS = 10"
definition OSSL_FUNC_DIGEST_GET_PARAMS :: int where "OSSL_FUNC_DIGEST_GET_PARAMS = 11"

lemmas digest_func_ids =
  OSSL_FUNC_DIGEST_NEWCTX_def OSSL_FUNC_DIGEST_INIT_def OSSL_FUNC_DIGEST_UPDATE_def
  OSSL_FUNC_DIGEST_FINAL_def OSSL_FUNC_DIGEST_DIGEST_def OSSL_FUNC_DIGEST_FREECTX_def
  OSSL_FUNC_DIGEST_DUPCTX_def OSSL_FUNC_DIGEST_SIZE_def OSSL_FUNC_DIGEST_BLOCK_SIZE_def
  OSSL_FUNC_DIGEST_SET_PARAMS_def OSSL_FUNC_DIGEST_GET_PARAMS_def

definition NID_undef :: int where "NID_undef = 0"

text \<open>
  The fields of \<open>EVP_MD\<close> that the modelled functions read or write. \<open>digest_fn\<close> and
  \<open>size_fn\<close> are the slots the source calls \<open>digest\<close> and \<open>size\<close>; \<open>cleanup\<close>, \<open>final\<close> and
  \<open>ctx_size\<close> belong to the legacy paths.
\<close>

record EVP_MD =
  md_type :: int
  md_name :: "string option"
  md_prov :: "addr option"
  md_refcnt :: int
  newctx :: "fnptr option"
  dinit :: "fnptr option"
  dupdate :: "fnptr option"
  dfinal :: "fnptr option"
  digest_fn :: "fnptr option"
  freectx :: "fnptr option"
  dupctx :: "fnptr option"
  size_fn :: "fnptr option"
  dblock_size :: "fnptr option"
  set_params :: "fnptr option"
  get_params :: "fnptr option"
  cleanup :: "fnptr option"
  final :: "fnptr option"
  ctx_size :: int

datatype reason =
  ERR_R_MALLOC_FAILURE | EVP_R_UPDATE_ERROR | EVP_R_FINAL_ERROR

text \<open>
  The part of the process the adapter touches: the allocator (blocks handed out and not
  yet released, out of a capacity that decides when an allocation fails), the providers'
  reference counts and the error stack.
\<close>

record runtime =
  live :: nat
  capacity :: nat
  prov_refs :: "addr \<Rightarrow> nat"
  err_stack :: "reason list"

definition EVPerr :: "reason \<Rightarrow> runtime \<Rightarrow> runtime" where
  "EVPerr r h = h\<lparr>err_stack := err_stack h @ [r]\<rparr>"

definition alloc_block :: "runtime \<Rightarrow> runtime option" where
  "alloc_block h = (if live h < capacity h then Some (h\<lparr>live := live h + 1\<rparr>) else None)"

definition free_block :: "runtime \<Rightarrow> runtime" where
  "free_block h = h\<lparr>live := live h - 1\<rparr>"

definition ossl_provider_up_ref :: "addr \<Rightarrow> runtime \<Rightarrow> runtime" where
  "ossl_provider_up_ref p h = h\<lparr>prov_refs := (prov_refs h)(p := prov_refs h p + 1)\<rparr>"

definition ossl_provider_free :: "addr option \<Rightarrow> runtime \<Rightarrow> runtime" where
  "ossl_provider_free p h =
     (case p of None \<Rightarrow> h
      | Some a \<Rightarrow> h\<lparr>prov_refs := (prov_refs h)(a := prov_refs h a - 1)\<rparr>)"

text \<open>
  Modelled from the spec: \<open>EVP_MD_meth_new\<close>, \<open>OPENSSL_strdup\<close> and \<open>EVP_MD_meth_free\<close> are
  called by the adapter but defined outside the sources. An implementation record is a
  refcounted object: a new one is a zeroed block holding one reference, or null when the
  allocation fails; dropping the last reference releases the provider reference, the
  name and the record. The adapter only ever frees the record it has just built.
\<close>

definition EVP_MD_meth_new :: "int \<Rightarrow> int \<Rightarrow> runtime \<Rightarrow> EVP_MD option \<times> runtime" where
  "EVP_MD_meth_new t pkey_type h =
     (case alloc_block h of
        None \<Rightarrow> (None, h)
      | Some h' \<Rightarrow>
          (Some \<lparr>md_type = t, md_name = None, md_prov = None, md_refcnt = 1,
              newctx = None, dinit = None, dupdate = None, dfinal = None, digest_fn = None,
              freectx = None, dupctx = None, size_fn = None, dblock_size = None,
              set_params = None, get_params = None, cleanup = None, final = None,
              ctx_size = 0\<rparr>, h'))"

definition OPENSSL_strdup :: "string \<Rightarrow> runtime \<Rightarrow> string option \<times> runtime" where
  "OPENSSL_strdup s h =
     (case alloc_block h of None \<Rightarrow> (None, h) | Some h' \<Rightarrow> (Some s, h'))"

definition EVP_MD_meth_free :: "EVP_MD option \<Rightarrow> runtime \<Rightarrow> runtime" where
  "EVP_MD_meth_free m h =
     (case m of
        None \<Rightarrow> h
      | Some md \<Rightarrow>
          if md_refcnt md - 1 > 0 then h
          else
            let h1 = ossl_provider_free (md_prov md) h;
                h2 = (case md_name md of None \<Rightarrow> h1 | Some s \<Rightarrow> free_block h1)
            in free_block h2)"

text \<open>One turn of the \<open>switch\<close> in the loop of \<open>evp_md_from_dispatch\<close>.\<close>

definition from_dispatch_case :: "OSSL_DISPATCH \<Rightarrow> EVP_MD \<times> int \<Rightarrow> EVP_MD \<times> int" where
  "from_dispatch_case fns acc =
     (case acc of (md, fncnt) \<Rightarrow>
        if function_id fns = OSSL_FUNC_DIGEST_NEWCTX then
          (if newctx md = None then (md\<lparr>newctx := function_ptr fns\<rparr>, fncnt + 1)
           else (md, fncnt))
        else if function_id fns = OSSL_FUNC_DIGEST_INIT then
          (if dinit md = None then (md\<lparr>dinit := function_ptr fns\<rparr>, fncnt + 1)
           else (md, fncnt))
        else if function_id fns = OSSL_FUNC_DIGEST_UPDATE then
          (if dupdate md = None then (md\<lparr>dupdate := function_ptr fns\<rparr>, fncnt + 1)
           else (md, fncnt))
        else if function_id fns = OSSL_FUNC_DIGEST_FINAL then
          (if dfinal md = None then (md\<lparr>dfinal := function_ptr fns\<rparr>, fncnt + 1)
           else (md, fncnt))
        else if function_id fns = OSSL_FUNC_DIGEST_DIGEST then
          (if digest_fn md = None then (md\<lparr>digest_fn := function_ptr fns\<rparr>, fncnt)
           else (md, fncnt))
        else if function_id fns = OSSL_FUNC_DIGEST_FREECTX then
          (if freectx md = None then (md\<lparr>freectx := function_ptr fns\<rparr>, fncnt + 1)
           else (md, fncnt))
        else if function_id fns = OSSL_FUNC_DIGEST_DUPCTX then
          (if dupctx md = None then (md\<lparr>dupctx := function_ptr fns\<rparr>, fncnt)
           else (md, fncnt))
        else if function_id fns = OSSL_FUNC_DIGEST_SIZE then
          (if size_fn md = None then (md\<lparr>size_fn := function_ptr fns\<rparr>, fncnt)
           else (md, fncnt))
        else if function_id fns = OSSL_FUNC_DIGEST_BLOCK_SIZE then
          (if dblock_size md = None then (md\<lparr>dblock_size := function_ptr fns\<rparr>, fncnt)
           else (md, fncnt))
        else if function_id fns = OSSL_FUNC_DIGEST_SET_PARAMS then
          (if set_params md = None then (md\<lparr>set_params := function_ptr fns\<rparr>, fncnt)
           else (md, fncnt))
        else if function_id fns = OSSL_FUNC_DIGEST_GET_PARAMS then
          (if get_params md = None then (md\<lparr>get_params := function_ptr fns\<rparr>, fncnt)
           else (md, fncnt))
        else (md, fncnt))"

fun from_dispatch_loop :: "OSSL_DISPATCH list \<Rightarrow> EVP_MD \<times> int \<Rightarrow> EVP_MD \<times> int" where
  "from_dispatch_loop [] acc = acc"
| "from_dispatch_loop (fns # rest) acc =
     (if function_id fns = 0 then acc
      else from_dispatch_loop rest (from_dispatch_case fns acc))"

definition evp_md_from_dispatch ::
  "string \<Rightarrow> OSSL_DISPATCH list \<Rightarrow> addr option \<Rightarrow> runtime \<Rightarrow> EVP_MD option \<times> runtime" where
  "evp_md_from_dispatch nm fns prv h =
     (case EVP_MD_meth_new NID_undef NID_undef h of
        (None, h1) \<Rightarrow> (None, EVPerr ERR_R_MALLOC_FAILURE (EVP_MD_meth_free None h1))
      | (Some md0, h1) \<Rightarrow>
          (case OPENSSL_strdup nm h1 of
             (None, h2) \<Rightarrow>
               (None, EVPerr ERR_R_MALLOC_FAILURE (EVP_MD_meth_free (Some md0) h2))
           | (Some s, h2) \<Rightarrow>
               (case from_dispatch_loop fns (md0\<lparr>md_name := Some s\<rparr>, 0) of
                  (md, fncnt) \<Rightarrow>
                    if (fncnt \<noteq> 0 \<and> fncnt \<noteq> 5)
                       \<or> (fncnt = 0 \<and> digest_fn md = None)
                       \<or> size_fn md = None
                    then (None, EVP_MD_meth_free (Some md) h2)
                    else
                      (Some (md\<lparr>md_prov := prv\<rparr>),
                       (case prv of None \<Rightarrow> h2 | Some p \<Rightarrow> ossl_provider_up_ref p h2)))))"

text \<open>
  What a table supplies: the entries before the terminator, and whether one of them
  carries a given function id.
\<close>

fun entries :: "OSSL_DISPATCH list \<Rightarrow> OSSL_DISPATCH list" where
  "entries [] = []"
| "entries (fns # rest) = (if function_id fns = 0 then [] else fns # entries rest)"

definition supplies :: "OSSL_DISPATCH list \<Rightarrow> int \<Rightarrow> bool" where
  "supplies fns i = (i \<in> function_id ` set (entries fns))"

definition complete_table :: "OSSL_DISPATCH list \<Rightarrow> bool" where
  "complete_table fns =
     (((supplies fns OSSL_FUNC_DIGEST_NEWCTX \<and> supplies fns OSSL_FUNC_DIGEST_INIT
        \<and> supplies fns OSSL_FUNC_DIGEST_UPDATE \<and> supplies fns OSSL_FUNC_DIGEST_FINAL
        \<and> supplies fns OSSL_FUNC_DIGEST_FREECTX)
       \<or> supplies fns OSSL_FUNC_DIGEST_DIGEST)
      \<and> supplies fns OSSL_FUNC_DIGEST_SIZE)"

text \<open>
  A table is well formed when no entry before the terminator carries a null function
  pointer. \<open>five_count\<close> counts which of the five context functions a record has;
  \<open>step_inv\<close> and \<open>loop_inv\<close> say what one turn of the switch, and the whole loop, keep:
  on well-formed entries the counter runs in step with \<open>five_count\<close>, a slot that is set
  afterwards was set before or is supplied by the table, and the reference count, the
  name and the provider of the record are not touched.
\<close>

definition well_formed_table :: "OSSL_DISPATCH list \<Rightarrow> bool" where
  "well_formed_table fns = (\<forall>e \<in> set (entries fns). function_ptr e \<noteq> None)"

definition five_count :: "EVP_MD \<Rightarrow> int" where
  "five_count md = of_bool (newctx md \<noteq> None) + of_bool (dinit md \<noteq> None)
     + of_bool (dupdate md \<noteq> None) + of_bool (dfinal md \<noteq> None)
     + of_bool (freectx md \<noteq> None)"

definition step_inv :: "OSSL_DISPATCH \<Rightarrow> EVP_MD \<Rightarrow> int \<Rightarrow> EVP_MD \<Rightarrow> int \<Rightarrow> bool" where
  "step_inv e md c md' c' =
     ((function_ptr e \<noteq> None \<longrightarrow> c' - five_count md' = c - five_count md)
      \<and> (newctx md' \<noteq> None \<longrightarrow> newctx md \<noteq> None \<or> function_id e = 1)
      \<and> (dinit md' \<noteq> None \<longrightarrow> dinit md \<noteq> None \<or> function_id e = 2)
      \<and> (dupdate md' \<noteq> None \<longrightarrow> dupdate md \<noteq> None \<or> function_id e = 3)
      \<and> (dfinal md' \<noteq> None \<longrightarrow> dfinal md \<noteq> None \<or> function_id e = 4)
      \<and> (digest_fn md' \<noteq> None \<longrightarrow> digest_fn md \<noteq> None \<or> function_id e = 5)
      \<and> (freectx md' \<noteq> None \<longrightarrow> freectx md \<noteq> None \<or> function_id e = 6)
      \<and> (size_fn md' \<noteq> None \<longrightarrow> size_fn md \<noteq> None \<or> function_id e = 8)
      \<and> md_refcnt md' = md_refcnt md \<and> md_name md' = md_name md \<and> md_prov md' = md_prov md)"

definition loop_inv :: "OSSL_DISPATCH list \<Rightarrow> EVP_MD \<Rightarrow> int \<Rightarrow> EVP_MD \<Rightarrow> int \<Rightarrow> bool" where
  "loop_inv fns md c md' c' =
     ((well_formed_table fns \<longrightarrow> c' - five_count md' = c - five_count md)
      \<and> (newctx md' \<noteq> None \<longrightarrow> newctx md \<noteq> None \<or> supplies fns 1)
      \<and> (dinit md' \<noteq> None \<longrightarrow> dinit md \<noteq> None \<or> supplies fns 2)
      \<and> (dupdate md' \<noteq> None \<longrightarrow> dupdate md \<noteq> None \<or> supplies fns 3)
      \<and> (dfinal md' \<noteq> None \<longrightarrow> dfinal md \<noteq> None \<or> supplies fns 4)
      \<and> (digest_fn md' \<noteq> None \<longrightarrow> digest_fn md \<noteq> None \<or> supplies fns 5)
      \<and> (freectx md' \<noteq> None \<longrightarrow> freectx md \<noteq> None \<or> supplies fns 6)
      \<and> (size_fn md' \<noteq> None \<longrightarrow> size_fn md \<noteq> None \<or> supplies fns 8)
      \<and> md_refcnt md' = md_refcnt md \<and> md_name md' = md_name md \<and> md_prov md' = md_prov md)"

text \<open>
  Tables and a runtime for concrete runs: a table whose five \<open>newctx\<close> entries and no
  others are null pointers, a complete SHA-256 table, a table with only two of the five
  functions, and a runtime with room for eight blocks.
\<close>

definition null_newctx_table :: "OSSL_DISPATCH list" where
  "null_newctx_table =
     [\<lparr>function_id = 1, function_ptr = None\<rparr>, \<lparr>function_id = 1, function_ptr = None\<rparr>,
      \<lparr>function_id = 1, function_ptr = None\<rparr>, \<lparr>function_id = 1, function_ptr = None\<rparr>,
      \<lparr>function_id = 1, function_ptr = None\<rparr>, \<lparr>function_id = 8, function_ptr = Some 80\<rparr>,
      \<lparr>function_id = 0, function_ptr = None\<rparr>]"

definition sha256_table :: "OSSL_DISPATCH list" where
  "sha256_table =
     [\<lparr>function_id = 1, function_ptr = Some 10\<rparr>, \<lparr>function_id = 2, function_ptr = Some 20\<rparr>,
      \<lparr>function_id = 3, function_ptr = Some 30\<rparr>, \<lparr>function_id = 4, function_ptr = Some 40\<rparr>,
      \<lparr>function_id = 6, function_ptr = Some 60\<rparr>, \<lparr>function_id = 8, function_ptr = Some 80\<rparr>,
      \<lparr>function_id = 0, function_ptr = None\<rparr>]"

definition partial_table :: "OSSL_DISPATCH list" where
  "partial_table =
     [\<lparr>function_id = 1, function_ptr = Some 10\<rparr>, \<lparr>function_id = 2, function_ptr = Some 20\<rparr>,
      \<lparr>function_id = 8, function_ptr = Some 80\<rparr>, \<lparr>function_id = 0, function_ptr = None\<rparr>]"

definition example_runtime :: runtime where
  "example_runtime = \<lparr>live = 0, capacity = 8, prov_refs = (\<lambda>p. 1), err_stack = []\<rparr>"

section \<open>Digest contexts (crypto/evp/digest.c)\<close>

text \<open>
  \<open>size_t\<close> and \<open>unsigned long\<close> are 64-bit words, \<open>unsigned int\<close> a 32-bit word. A context
  refers to its \<open>EVP_MD\<close> records through \<open>const\<close> pointers and only reads them, so the
  context holds the records themselves; \<open>None\<close> is the null pointer.
\<close>

type_synonym size_t = "64 word"

record EVP_MD_CTX =
  digest :: "EVP_MD option"
  engine :: "addr option"
  flags :: "64 word"
  md_data :: "addr option"
  pctx :: "addr option"
  update :: "fnptr option"
  reqdigest :: "EVP_MD option"
  fetched_digest :: "EVP_MD option"
  provctx :: "addr option"

text \<open>
  Modelled from the spec: the lifecycle flags CLEANED, REUSE, ONESHOT, NO_INIT and
  KEEP_PKEY_CTX and their accessors \<open>EVP_MD_CTX_set_flags\<close>, \<open>EVP_MD_CTX_clear_flags\<close> and
  \<open>EVP_MD_CTX_test_flags\<close> are declared outside the sources; the flags are distinct bits
  of \<open>ctx->flags\<close> (the values are those of openssl/evp.h), which the accessors set, clear
  and test.
\<close>

definition EVP_MD_CTX_FLAG_ONESHOT :: "64 word" where "EVP_MD_CTX_FLAG_ONESHOT = 0x0001"
definition EVP_MD_CTX_FLAG_CLEANED :: "64 word" where "EVP_MD_CTX_FLAG_CLEANED = 0x0002"
definition EVP_MD_CTX_FLAG_REUSE :: "64 word" where "EVP_MD_CTX_FLAG_REUSE = 0x0004"
definition EVP_MD_CTX_FLAG_NO_INIT :: "64 word" where "EVP_MD_CTX_FLAG_NO_INIT = 0x0100"
definition EVP_MD_CTX_FLAG_KEEP_PKEY_CTX :: "64 word" where
  "EVP_MD_CTX_FLAG_KEEP_PKEY_CTX = 0x0400"

definition EVP_MD_CTX_set_flags :: "EVP_MD_CTX \<Rightarrow> 64 word \<Rightarrow> EVP_MD_CTX" where
  "EVP_MD_CTX_set_flags c f = c\<lparr>flags := flags c OR f\<rparr>"

definition EVP_MD_CTX_clear_flags :: "EVP_MD_CTX \<Rightarrow> 64 word \<Rightarrow> EVP_MD_CTX" where
  "EVP_MD_CTX_clear_flags c f = c\<lparr>flags := flags c AND NOT f\<rparr>"

definition EVP_MD_CTX_test_flags :: "EVP_MD_CTX \<Rightarrow> 64 word \<Rightarrow> bool" where
  "EVP_MD_CTX_test_flags c f = (flags c AND f \<noteq> 0)"



text \<open>
  Code outside the envelope: the provider functions a context reaches through the
  function pointers of its \<open>EVP_MD\<close>, the legacy hooks, and the library functions the
  envelope calls. Each acts on a world \<open>'w\<close> the envelope cannot see into; a legacy hook
  is handed the context and may change it. The functions of this section are
  parameterised by such an \<open>extern\<close>, so what is proved of them holds whatever the outside
  code does.
\<close>

record 'w extern =
  call_freectx :: "fnptr \<Rightarrow> addr \<Rightarrow> 'w \<Rightarrow> 'w"
  call_dupdate :: "fnptr \<Rightarrow> addr option \<Rightarrow> addr option \<Rightarrow> size_t \<Rightarrow> 'w \<Rightarrow> int \<times> 'w"
  call_dfinal :: "fnptr \<Rightarrow> addr option \<Rightarrow> addr option \<Rightarrow> size_t \<Rightarrow> 'w \<Rightarrow> (int \<times> size_t) \<times> 'w"
  call_cleanup :: "fnptr \<Rightarrow> EVP_MD_CTX \<Rightarrow> 'w \<Rightarrow> EVP_MD_CTX \<times> 'w"
  call_update :: "fnptr \<Rightarrow> EVP_MD_CTX \<Rightarrow> addr option \<Rightarrow> size_t \<Rightarrow> 'w \<Rightarrow> (int \<times> EVP_MD_CTX) \<times> 'w"
  call_final :: "fnptr \<Rightarrow> EVP_MD_CTX \<Rightarrow> addr option \<Rightarrow> 'w \<Rightarrow> (int \<times> EVP_MD_CTX) \<times> 'w"
  OPENSSL_zalloc :: "'w \<Rightarrow> addr option \<times> 'w"
  OPENSSL_clear_free :: "addr option \<Rightarrow> int \<Rightarrow> 'w \<Rightarrow> 'w"
  OPENSSL_cleanse :: "addr option \<Rightarrow> int \<Rightarrow> 'w \<Rightarrow> 'w"
  EVP_PKEY_CTX_free :: "addr option \<Rightarrow> 'w \<Rightarrow> 'w"
  ENGINE_finish :: "addr option \<Rightarrow> 'w \<Rightarrow> 'w"
  EVP_MD_size :: "EVP_MD option \<Rightarrow> 'w \<Rightarrow> int \<times> 'w"

text \<open>The state the envelope shares with its caller: the world and the error stack.\<close>

record 'w machine =
  world :: 'w
  errors :: "reason list"

definition put_error :: "reason \<Rightarrow> 'w machine \<Rightarrow> 'w machine" where
  "put_error r m = m\<lparr>errors := errors m @ [r]\<rparr>"

text \<open>
  A call either returns or does not: \<open>Crash\<close> stands for a call through a null function
  pointer, a null dereference or a failed \<open>OPENSSL_assert\<close>.
\<close>

datatype 'a result = Ret 'a | Crash

definition EVP_MD_CTX_zero :: EVP_MD_CTX where
  "EVP_MD_CTX_zero =
     \<lparr>digest = None, engine = None, flags = 0, md_data = None, pctx = None, update = None,
      reqdigest = None, fetched_digest = None, provctx = None\<rparr>"

definition EVP_MD_CTX_new :: "'w extern \<Rightarrow> 'w \<Rightarrow> EVP_MD_CTX option \<times> 'w" where
  "EVP_MD_CTX_new X w =
     (case OPENSSL_zalloc X w of
        (None, w') \<Rightarrow> (None, w')
      | (Some a, w') \<Rightarrow> (Some EVP_MD_CTX_zero, w'))"

text \<open>
  The test \<open>ctx->digest == NULL || ctx->digest->prov == NULL\<close> that sends a call to the
  legacy path: \<open>provider_digest\<close> is the digest of a context on the provider path.
\<close>

definition provider_digest :: "EVP_MD_CTX \<Rightarrow> EVP_MD option" where
  "provider_digest c =
     (case digest c of
        None \<Rightarrow> None
      | Some d \<Rightarrow> if md_prov d = None then None else Some d)"

text \<open>The code of \<open>EVP_MD_CTX_reset\<close> after the label \<open>legacy\<close> (default build).\<close>

definition reset_legacy :: "'w extern \<Rightarrow> EVP_MD_CTX \<Rightarrow> 'w \<Rightarrow> EVP_MD_CTX \<times> 'w" where
  "reset_legacy X c w =
     (case (case digest c of
              None \<Rightarrow> (c, w)
            | Some d \<Rightarrow>
                (case cleanup d of
                   None \<Rightarrow> (c, w)
                 | Some f \<Rightarrow>
                     if \<not> EVP_MD_CTX_test_flags c EVP_MD_CTX_FLAG_CLEANED
                     then call_cleanup X f c w else (c, w)))
      of (c1, w1) \<Rightarrow>
        let w2 = (case digest c1 of
                    None \<Rightarrow> w1
                  | Some d \<Rightarrow>
                      if ctx_size d \<noteq> 0 \<and> md_data c1 \<noteq> None
                         \<and> \<not> EVP_MD_CTX_test_flags c1 EVP_MD_CTX_FLAG_REUSE
                      then OPENSSL_clear_free X (md_data c1) (ctx_size d) w1 else w1);
            w3 = (if \<not> EVP_MD_CTX_test_flags c1 EVP_MD_CTX_FLAG_KEEP_PKEY_CTX
                  then EVP_PKEY_CTX_free X (pctx c1) w2 else w2);
            w4 = ENGINE_finish X (engine c1) w3
        in (EVP_MD_CTX_zero, w4))"

text \<open>
  \<open>EVP_MD_CTX_reset\<close> on a context that is not null (on a null pointer the source
  returns 1 at once).
\<close>

definition EVP_MD_CTX_reset :: "'w extern \<Rightarrow> EVP_MD_CTX \<Rightarrow> 'w \<Rightarrow> int \<times> EVP_MD_CTX \<times> 'w" where
  "EVP_MD_CTX_reset X c w =
     (case provider_digest c of
        None \<Rightarrow> (case reset_legacy X c w of (c', w') \<Rightarrow> (1, c', w'))
      | Some d \<Rightarrow>
          (case (case provctx c of
                   None \<Rightarrow> (c, w)
                 | Some p \<Rightarrow>
                     (EVP_MD_CTX_set_flags (c\<lparr>provctx := None\<rparr>) EVP_MD_CTX_FLAG_CLEANED,
                      (case freectx d of None \<Rightarrow> w | Some f \<Rightarrow> call_freectx X f p w)))
           of (c1, w1) \<Rightarrow>
             if pctx c1 \<noteq> None
             then (case reset_legacy X c1 w1 of (c', w') \<Rightarrow> (1, c', w'))
             else (1, c1, w1)))"

definition EVP_DigestUpdate ::
  "'w extern \<Rightarrow> EVP_MD_CTX \<Rightarrow> addr option \<Rightarrow> size_t \<Rightarrow> 'w machine
    \<Rightarrow> int result \<times> EVP_MD_CTX \<times> 'w machine" where
  "EVP_DigestUpdate X c data count m =
     (if count = 0 then (Ret 1, c, m)
      else
        (case provider_digest c of
           None \<Rightarrow>
             (case update c of
                None \<Rightarrow> (Crash, c, m)
              | Some u \<Rightarrow>
                  (case call_update X u c data count (world m) of
                     ((r, c'), w') \<Rightarrow> (Ret r, c', m\<lparr>world := w'\<rparr>)))
         | Some d \<Rightarrow>
             (case dupdate d of
                None \<Rightarrow> (Ret 0, c, put_error EVP_R_UPDATE_ERROR m)
              | Some f \<Rightarrow>
                  (case call_dupdate X f (provctx c) data count (world m) of
                     (r, w') \<Rightarrow> (Ret r, c, m\<lparr>world := w'\<rparr>)))))"



text \<open>
  An \<open>extern\<close> for concrete runs: the world is the trace of the outside calls made so
  far. Hooks leave the context as it is and return \<open>ret\<close>; \<open>dfinal\<close> reports \<open>sz\<close> bytes;
  \<open>EVP_MD_size\<close> answers \<open>mdsz\<close>.
\<close>

datatype event =
  Freectx fnptr addr
| Dupdate fnptr "addr option" "addr option" size_t
| Dfinal fnptr "addr option" "addr option" size_t
| Cleanup fnptr
| Update_hook fnptr "addr option" size_t
| Final_hook fnptr "addr option"
| Zalloc
| Clear_free "addr option" int
| Cleanse "addr option" int
| Pkey_ctx_free "addr option"
| Engine_finish "addr option"
| Md_size

definition tracing :: "int \<Rightarrow> size_t \<Rightarrow> int \<Rightarrow> event list extern" where
  "tracing ret sz mdsz =
     \<lparr>call_freectx = (\<lambda>f p w. w @ [Freectx f p]),
      call_dupdate = (\<lambda>f p d n w. (ret, w @ [Dupdate f p d n])),
      call_dfinal = (\<lambda>f p md n w. ((ret, sz), w @ [Dfinal f p md n])),
      call_cleanup = (\<lambda>f c w. (c, w @ [Cleanup f])),
      call_update = (\<lambda>f c d n w. ((ret, c), w @ [Update_hook f d n])),
      call_final = (\<lambda>f c md w. ((ret, c), w @ [Final_hook f md])),
      OPENSSL_zalloc = (\<lambda>w. (Some (length w), w @ [Zalloc])),
      OPENSSL_clear_free = (\<lambda>p n w. w @ [Clear_free p n]),
      OPENSSL_cleanse = (\<lambda>p n w. w @ [Cleanse p n]),
      EVP_PKEY_CTX_free = (\<lambda>p w. w @ [Pkey_ctx_free p]),
      ENGINE_finish = (\<lambda>p w. w @ [Engine_finish p]),
      EVP_MD_size = (\<lambda>d w. (mdsz, w @ [Md_size]))\<rparr>"

text \<open>
  Values for concrete runs: a provider's digest with the five context functions and
  \<open>size\<close>, a context initialised with it, and the same context over a digest that lacks
  the \<open>final\<close> slot.
\<close>

definition example_md :: EVP_MD where
  "example_md =
     \<lparr>md_type = 0, md_name = Some ''SHA256'', md_prov = Some 7, md_refcnt = 2,
      newctx = Some 10, dinit = Some 20, dupdate = Some 30, dfinal = Some 40,
      digest_fn = None, freectx = Some 60, dupctx = Some 70, size_fn = Some 80,
      dblock_size = None, set_params = None, get_params = None, cleanup = None,
      final = None, ctx_size = 0\<rparr>"

definition example_ctx :: EVP_MD_CTX where
  "example_ctx =
     \<lparr>digest = Some example_md, engine = None, flags = 0, md_data = None, pctx = None,
      update = None, reqdigest = Some example_md, fetched_digest = Some example_md,
      provctx = Some 9\<rparr>"


section \<open>The DH key exchange (the provider's \<open>dh_newctx\<close> \<dots> \<open>dh_set_params\<close>)\<close>

text \<open>
  What is passed as a key is a \<open>DH\<close> structure: modulus, generator and the two halves
  of the key pair, either of which may be missing. The context holds the keys
  themselves; the reference counts of \<open>DH\<close> objects (\<open>DH_up_ref\<close>, \<open>DH_free\<close>) belong to
  the DH library and are left to it.
\<close>

type_synonym byte = "8 word"

record DH =
  dh_p :: nat
  dh_g :: nat
  dh_priv_key :: "nat option"
  dh_pub_key :: "nat option"

record PROV_DH_CTX =
  dh :: "DH option"
  dhpeer :: "DH option"
  pad :: int

text \<open>
  \<open>DH_size\<close>, \<open>DH_compute_key\<close> and \<open>DH_compute_key_padded\<close> are functions of the DH
  implementation, outside the sources, so \<open>dh_derive\<close> takes them as a parameter. A
  compute function is given the peer's public key (what \<open>DH_get0_key\<close> reads from the
  peer) and the own key, and yields its \<open>int\<close> result together with the bytes it has
  written to the output buffer.
\<close>

record dh_lib =
  DH_size :: "DH \<Rightarrow> int"
  DH_compute_key :: "nat option \<Rightarrow> DH \<Rightarrow> int \<times> byte list"
  DH_compute_key_padded :: "nat option \<Rightarrow> DH \<Rightarrow> int \<times> byte list"

definition dh_newctx :: "bool \<Rightarrow> PROV_DH_CTX option" where
  "dh_newctx zalloc_ok = (if zalloc_ok then Some \<lparr>dh = None, dhpeer = None, pad = 0\<rparr> else None)"

definition dh_init :: "PROV_DH_CTX \<Rightarrow> DH option \<Rightarrow> int \<times> PROV_DH_CTX" where
  "dh_init pdhctx vdh = ((if vdh \<noteq> None then 1 else 0), pdhctx\<lparr>dh := vdh\<rparr>)"

definition dh_set_peer :: "PROV_DH_CTX \<Rightarrow> DH option \<Rightarrow> int \<times> PROV_DH_CTX" where
  "dh_set_peer pdhctx vdh = ((if vdh \<noteq> None then 1 else 0), pdhctx\<lparr>dhpeer := vdh\<rparr>)"

text \<open>
  \<open>dh_derive\<close> returns its \<open>int\<close> result, the bytes written to \<open>key\<close> and the value of
  \<open>*keylen\<close> afterwards. \<open>key\<close> is the output pointer, \<open>outlen\<close> its capacity.
\<close>

definition dh_derive ::
  "dh_lib \<Rightarrow> PROV_DH_CTX \<Rightarrow> addr option \<Rightarrow> size_t \<Rightarrow> size_t \<Rightarrow> int \<times> byte list \<times> size_t" where
  "dh_derive L pdhctx key keylen outlen =
     (case dh pdhctx of
        None \<Rightarrow> (0, [], keylen)
      | Some d \<Rightarrow>
          (case dhpeer pdhctx of
             None \<Rightarrow> (0, [], keylen)
           | Some peer \<Rightarrow>
               let dhsize = (word_of_int (DH_size L d) :: size_t) in
               if key = None then (1, [], dhsize)
               else if outlen < dhsize then (0, [], keylen)
               else
                 (case (if pad pdhctx \<noteq> 0
                        then DH_compute_key_padded L (dh_pub_key peer) d
                        else DH_compute_key L (dh_pub_key peer) d)
                  of (ret, written) \<Rightarrow>
                    if ret \<le> 0 then (0, written, keylen)
                    else (1, written, word_of_int ret))))"

text \<open>
  Modelled from the spec: \<open>OSSL_PARAM\<close>, \<open>OSSL_PARAM_locate_const\<close>,
  \<open>OSSL_PARAM_get_int\<close> and the name of the padding parameter are declared outside the
  sources. A params object is an array of entries with a key string and typed data
  (integers signed and unsigned, strings, octet strings); the reconfigurable parameter of
  the key exchange is called "pad". Locating a key finds the first entry with that key;
  reading an \<open>int\<close> succeeds on an integer entry whose value fits an \<open>int\<close>.
\<close>

datatype param_data = Integer int | Unsigned nat | Utf8_string string | Octet_string "byte list"

record OSSL_PARAM =
  param_key :: string
  param_data :: param_data

definition OSSL_EXCHANGE_PARAM_PAD :: string where
  "OSSL_EXCHANGE_PARAM_PAD = ''pad''"

definition OSSL_PARAM_locate_const :: "OSSL_PARAM list \<Rightarrow> string \<Rightarrow> OSSL_PARAM option" where
  "OSSL_PARAM_locate_const params k = find (\<lambda>p. param_key p = k) params"

definition OSSL_PARAM_get_int :: "OSSL_PARAM \<Rightarrow> int option" where
  "OSSL_PARAM_get_int p =
     (case param_data p of
        Integer i \<Rightarrow> if - (2 ^ 31) \<le> i \<and> i < 2 ^ 31 then Some i else None
      | Unsigned n \<Rightarrow> if n < 2 ^ 31 then Some (int n) else None
      | _ \<Rightarrow> None)"

definition dh_set_params :: "PROV_DH_CTX option \<Rightarrow> OSSL_PARAM list option \<Rightarrow> int \<times> PROV_DH_CTX option" where
  "dh_set_params vpdhctx params =
     (case vpdhctx of
        None \<Rightarrow> (0, None)
      | Some pdhctx \<Rightarrow>
          (case params of
             None \<Rightarrow> (0, Some pdhctx)
           | Some ps \<Rightarrow>
               (case OSSL_PARAM_locate_const ps OSSL_EXCHANGE_PARAM_PAD of
                  None \<Rightarrow> (0, Some pdhctx)
                | Some p \<Rightarrow>
                    (case OSSL_PARAM_get_int p of
                       None \<Rightarrow> (0, Some pdhctx)
                     | Some v \<Rightarrow> (1, Some (pdhctx\<lparr>pad := v\<rparr>))))))"

text \<open>
  Modelled from the spec: the DH implementation behind \<open>dh_lib\<close> is not among the
  sources. The size of a key is the size of its modulus in bytes; the shared secret is
  the peer's public key raised to the own private key modulo the modulus; the plain
  computation writes the secret's big-endian encoding with leading zero bytes stripped,
  the padded one writes it left-padded with zero bytes to the full modulus size; both
  return the number of bytes written, or -1 when a key is missing.
\<close>

fun be_bytes :: "nat \<Rightarrow> byte list" where
  "be_bytes n = (if n = 0 then [] else be_bytes (n div 256) @ [of_nat (n mod 256)])"

declare be_bytes.simps [simp del]

definition num_bytes :: "nat \<Rightarrow> nat" where
  "num_bytes n = length (be_bytes n)"

definition shared_secret :: "nat \<Rightarrow> DH \<Rightarrow> nat" where
  "shared_secret y d = (case dh_priv_key d of None \<Rightarrow> 0 | Some x \<Rightarrow> y ^ x mod dh_p d)"

definition spec_dh :: dh_lib where
  "spec_dh =
     \<lparr>DH_size = (\<lambda>d. int (num_bytes (dh_p d))),
      DH_compute_key = (\<lambda>pub d.
        case pub of
          None \<Rightarrow> (-1, [])
        | Some y \<Rightarrow>
            if dh_priv_key d = None then (-1, [])
            else let z = be_bytes (shared_secret y d) in (int (length z), z)),
      DH_compute_key_padded = (\<lambda>pub d.
        case pub of
          None \<Rightarrow> (-1, [])
        | Some y \<Rightarrow>
            if dh_priv_key d = None then (-1, [])
            else
              let z = be_bytes (shared_secret y d);
                  padded = replicate (num_bytes (dh_p d) - length z) 0 @ z
              in (int (length padded), padded))\<rparr>"

text \<open>
  For concrete runs: a DH library whose key computation reports an error, as
  \<open>DH_compute_key\<close> does with -1 for a peer key it rejects; and two parties over the
  modulus 65537 (three bytes) whose shared secret 59049 has a two-byte encoding.
\<close>

definition rejecting_dh :: dh_lib where
  "rejecting_dh =
     \<lparr>DH_size = (\<lambda>d. 3), DH_compute_key = (\<lambda>pub d. (-1, [])),
      DH_compute_key_padded = (\<lambda>pub d. (-1, []))\<rparr>"

definition alice :: DH where
  "alice = \<lparr>dh_p = 65537, dh_g = 3, dh_priv_key = Some 2, dh_pub_key = Some 9\<rparr>"

definition bob :: DH where
  "bob = \<lparr>dh_p = 65537, dh_g = 3, dh_priv_key = Some 5, dh_pub_key = Some 243\<rparr>"

definition dh_ctx :: PROV_DH_CTX where
  "dh_ctx = \<lparr>dh = Some alice, dhpeer = Some bob, pad = 0\<rparr>"

section \<open>Generic fetch (crypto/evp/evp_fetch.c)\<close>

text \<open>
  Modelled from the spec: the name map (\<open>ossl_namemap_name2num\<close>, \<open>ossl_namemap_add\<close>) is
  outside the sources. Names are canonicalised by ASCII lower-casing; ids are dense
  positive numbers assigned on first sight and never reused; 0 means unknown. The map is
  the list of canonical names in order of arrival, and the id of a name is its position
  counted from 1.
\<close>

definition ascii_lower :: "char \<Rightarrow> char" where
  "ascii_lower ch =
     (case map_of (zip ''ABCDEFGHIJKLMNOPQRSTUVWXYZ'' ''abcdefghijklmnopqrstuvwxyz'') ch of
        None \<Rightarrow> ch
      | Some l \<Rightarrow> l)"

definition canonical :: "string \<Rightarrow> string" where
  "canonical nm = map ascii_lower nm"

fun name_index :: "string list \<Rightarrow> string \<Rightarrow> nat" where
  "name_index [] nm = 0"
| "name_index (x # xs) nm =
     (if x = nm then 1 else (case name_index xs nm of 0 \<Rightarrow> 0 | Suc k \<Rightarrow> Suc (Suc k)))"

definition ossl_namemap_name2num :: "string list \<Rightarrow> string \<Rightarrow> nat" where
  "ossl_namemap_name2num namemap nm = name_index namemap (canonical nm)"

definition ossl_namemap_add :: "string list \<Rightarrow> string \<Rightarrow> nat \<times> string list" where
  "ossl_namemap_add namemap nm =
     (if name_index namemap (canonical nm) \<noteq> 0 then (name_index namemap (canonical nm), namemap)
      else (Suc (length namemap), namemap @ [canonical nm]))"

text \<open>
  Modelled from the spec: the method store (\<open>ossl_method_store_new\<close>,
  \<open>ossl_method_store_add\<close>, \<open>ossl_method_store_cache_get\<close>, \<open>ossl_method_store_cache_set\<close>)
  is outside the sources. A store holds, per method id and in insertion order, pairs of a
  property definition and an implementation, and carries a query cache keyed by method
  id and query string.
\<close>

record method_store =
  methods :: "(uint32 \<times> string \<times> addr) list"
  cache :: "uint32 \<times> string \<Rightarrow> addr option"

definition ossl_method_store_new :: method_store where
  "ossl_method_store_new = \<lparr>methods = [], cache = (\<lambda>k. None)\<rparr>"

definition ossl_method_store_add :: "method_store \<Rightarrow> uint32 \<Rightarrow> string \<Rightarrow> addr \<Rightarrow> method_store" where
  "ossl_method_store_add st methid propdef m = st\<lparr>methods := methods st @ [(methid, propdef, m)]\<rparr>"

definition ossl_method_store_cache_get :: "method_store \<Rightarrow> uint32 \<Rightarrow> string \<Rightarrow> addr option" where
  "ossl_method_store_cache_get st methid q = cache st (methid, q)"

definition ossl_method_store_cache_set :: "method_store \<Rightarrow> uint32 \<Rightarrow> string \<Rightarrow> addr \<Rightarrow> method_store" where
  "ossl_method_store_cache_set st methid q m = st\<lparr>cache := (cache st)((methid, q) \<mapsto> m)\<rparr>"

text \<open>
  A library context owns a default method store and a name map; either pointer is null
  when its creation failed. Implementations are addresses into a heap \<open>'h\<close> that the
  generic code touches only through the callbacks it is given. Queries and property
  definitions are strings.
\<close>

record 'h libctx =
  lc_store :: "method_store option"
  lc_namemap :: "string list option"
  heap :: 'h

text \<open>
  The record of callbacks that \<open>evp_generic_fetch\<close> hands to \<open>ossl_method_construct\<close>
  (\<open>OSSL_METHOD_CONSTRUCT_METHOD\<close>). A store argument of \<open>None\<close> is the null pointer, which
  \<open>get\<close> and \<open>put\<close> read as the default store; otherwise it is the temporary store.
\<close>

record 'h mcm =
  alloc_tmp_store :: "method_store option"
  dealloc_tmp_store :: "method_store option \<Rightarrow> 'h \<Rightarrow> 'h"
  mcm_get :: "'h libctx \<Rightarrow> method_store option \<Rightarrow> int \<Rightarrow> string \<Rightarrow> string \<Rightarrow> addr option \<times> 'h libctx"
  mcm_put :: "'h libctx \<Rightarrow> method_store option \<Rightarrow> addr \<Rightarrow> int \<Rightarrow> string \<Rightarrow> string
     \<Rightarrow> int \<times> 'h libctx \<times> method_store option"
  mcm_construct :: "string \<Rightarrow> OSSL_DISPATCH list \<Rightarrow> addr option \<Rightarrow> 'h \<Rightarrow> addr option \<times> 'h"
  mcm_destruct :: "addr \<Rightarrow> 'h \<Rightarrow> 'h"

text \<open>
  What \<open>evp_generic_fetch\<close> depends on from outside: its three callback arguments, and
  two functions that are not among the sources and are taken as parameters,
  \<open>ossl_method_store_fetch\<close> (the property matching) and \<open>ossl_method_construct\<close>.
\<close>

record 'h fetch_env =
  new_method :: "string \<Rightarrow> OSSL_DISPATCH list \<Rightarrow> addr option \<Rightarrow> 'h \<Rightarrow> addr option \<times> 'h"
  up_ref_method :: "addr \<Rightarrow> 'h \<Rightarrow> int \<times> 'h"
  free_method :: "addr \<Rightarrow> 'h \<Rightarrow> 'h"
  ossl_method_store_fetch :: "method_store \<Rightarrow> uint32 \<Rightarrow> string \<Rightarrow> addr option"
  ossl_method_construct ::
    "'h mcm \<Rightarrow> 'h libctx \<Rightarrow> int \<Rightarrow> string \<Rightarrow> string \<Rightarrow> addr option \<times> 'h libctx"

definition alloc_tmp_method_store :: "method_store option" where
  "alloc_tmp_method_store = Some ossl_method_store_new"

definition dealloc_tmp_method_store ::
  "'h fetch_env \<Rightarrow> method_store option \<Rightarrow> 'h \<Rightarrow> 'h" where
  "dealloc_tmp_method_store K st h =
     (case st of
        None \<Rightarrow> h
      | Some t \<Rightarrow> fold (\<lambda>(methid, propdef, m). free_method K m) (methods t) h)"

definition get_method_from_store ::
  "'h fetch_env \<Rightarrow> 'h libctx \<Rightarrow> method_store option \<Rightarrow> int \<Rightarrow> string \<Rightarrow> string
    \<Rightarrow> addr option \<times> 'h libctx" where
  "get_method_from_store K s st operation_id nm propquery =
     (case (case st of None \<Rightarrow> lc_store s | Some t \<Rightarrow> Some t) of
        None \<Rightarrow> (None, s)
      | Some store \<Rightarrow>
          (case lc_namemap s of
             None \<Rightarrow> (None, s)
           | Some namemap \<Rightarrow>
               let nameid = ossl_namemap_name2num namemap nm in
               if nameid = 0 then (None, s)
               else
                 let methid = method_id (word_of_int operation_id) (of_nat nameid) in
                 if methid = 0 then (None, s)
                 else
                   (case ossl_method_store_fetch K store methid propquery of
                      None \<Rightarrow> (None, s)
                    | Some m \<Rightarrow>
                        (case up_ref_method K m (heap s) of
                           (ok, h') \<Rightarrow>
                             if ok = 0 then (None, s\<lparr>heap := h'\<rparr>)
                             else (Some m, s\<lparr>heap := h'\<rparr>)))))"

definition put_method_in_store ::
  "'h fetch_env \<Rightarrow> 'h libctx \<Rightarrow> method_store option \<Rightarrow> addr \<Rightarrow> int \<Rightarrow> string \<Rightarrow> string
    \<Rightarrow> int \<times> 'h libctx \<times> method_store option" where
  "put_method_in_store K s st m operation_id nm propdef =
     (case lc_namemap s of
        None \<Rightarrow> (0, s, st)
      | Some namemap \<Rightarrow>
          (case ossl_namemap_add namemap nm of
             (nameid, namemap') \<Rightarrow>
               let s1 = s\<lparr>lc_namemap := Some namemap'\<rparr> in
               if nameid = 0 then (0, s1, st)
               else
                 let methid = method_id (word_of_int operation_id) (of_nat nameid) in
                 if methid = 0 then (0, s1, st)
                 else
                   (case (case st of None \<Rightarrow> lc_store s1 | Some t \<Rightarrow> Some t) of
                      None \<Rightarrow> (0, s1, st)
                    | Some store \<Rightarrow>
                        (case up_ref_method K m (heap s1) of
                           (ok, h') \<Rightarrow>
                             if ok = 0 then (0, s1\<lparr>heap := h'\<rparr>, st)
                             else
                               (case st of
                                  None \<Rightarrow>
                                    (1, s1\<lparr>heap := h',
                                          lc_store := Some (ossl_method_store_add store methid propdef m)\<rparr>,
                                     None)
                                | Some t \<Rightarrow>
                                    (1, s1\<lparr>heap := h'\<rparr>,
                                     Some (ossl_method_store_add store methid propdef m)))))))"

definition construct_method ::
  "'h fetch_env \<Rightarrow> string \<Rightarrow> OSSL_DISPATCH list \<Rightarrow> addr option \<Rightarrow> 'h \<Rightarrow> addr option \<times> 'h" where
  "construct_method K nm fns prv h = new_method K nm fns prv h"

definition destruct_method :: "'h fetch_env \<Rightarrow> addr \<Rightarrow> 'h \<Rightarrow> 'h" where
  "destruct_method K m h = free_method K m h"

definition the_mcm :: "'h fetch_env \<Rightarrow> 'h mcm" where
  "the_mcm K =
     \<lparr>alloc_tmp_store = alloc_tmp_method_store,
      dealloc_tmp_store = dealloc_tmp_method_store K,
      mcm_get = get_method_from_store K,
      mcm_put = put_method_in_store K,
      mcm_construct = construct_method K,
      mcm_destruct = destruct_method K\<rparr>"

definition evp_generic_fetch ::
  "'h fetch_env \<Rightarrow> 'h libctx \<Rightarrow> int \<Rightarrow> string \<Rightarrow> string \<Rightarrow> addr option \<times> 'h libctx" where
  "evp_generic_fetch K s operation_id nm properties =
     (case lc_store s of
        None \<Rightarrow> (None, s)
      | Some store \<Rightarrow>
          (case lc_namemap s of
             None \<Rightarrow> (None, s)
           | Some namemap \<Rightarrow>
               if \<not> ossl_assert (operation_id > 0) then (None, s)
               else
                 let nameid = ossl_namemap_name2num namemap nm;
                     methid = (if nameid \<noteq> 0
                               then method_id (word_of_int operation_id) (of_nat nameid) else 0)
                 in
                 if nameid \<noteq> 0 \<and> methid = 0 then (None, s)
                 else
                   (case (if nameid = 0 then None
                          else ossl_method_store_cache_get store methid properties) of
                      None \<Rightarrow>
                        (case ossl_method_construct K (the_mcm K) s operation_id nm properties of
                           (None, s1) \<Rightarrow> (None, s1)
                         | (Some method, s1) \<Rightarrow>
                             let nameid' = (case lc_namemap s1 of
                                              None \<Rightarrow> 0
                                            | Some namemap' \<Rightarrow> ossl_namemap_name2num namemap' nm);
                                 methid' = method_id (word_of_int operation_id) (of_nat nameid')
                             in
                             (Some method,
                              s1\<lparr>lc_store :=
                                   (case lc_store s1 of
                                      None \<Rightarrow> None
                                    | Some store' \<Rightarrow>
                                        Some (ossl_method_store_cache_set store' methid'
                                                properties method))\<rparr>))
                    | Some method \<Rightarrow>
                        (Some method, s\<lparr>heap := snd (up_ref_method K method (heap s))\<rparr>))))"

text \<open>
  A name is registered for an operation when the context has its store and name map,
  the name has an id and the pair has a method id: what the source expects after a
  construction that produced a method ("we know that there is a correct nameid and
  methodid").
\<close>

definition registered :: "'h libctx \<Rightarrow> int \<Rightarrow> string \<Rightarrow> bool" where
  "registered s operation_id nm =
     (lc_store s \<noteq> None
      \<and> (case lc_namemap s of
            None \<Rightarrow> False
          | Some namemap \<Rightarrow>
              ossl_namemap_name2num namemap nm \<noteq> 0
              \<and> method_id (word_of_int operation_id)
                    (of_nat (ossl_namemap_name2num namemap nm)) \<noteq> 0))"

text \<open>
  For concrete runs: a heap of reference counts with a next free address; callbacks
  that allocate with one reference, add a reference and drop one; a store fetch that
  takes the first implementation of the method id; and an \<open>ossl_method_construct\<close> that
  builds one method for the name, puts it into the default store, drops the builder's
  reference and gets the method back out of the store. \<open>example_after\<close> is the context
  after the first fetch of SHA256.
\<close>

record rc_heap =
  refs :: "addr \<Rightarrow> nat"
  next_free :: addr

definition example_env :: "rc_heap fetch_env" where
  "example_env =
     \<lparr>new_method = (\<lambda>nm fns prv h.
        (Some (next_free h),
         h\<lparr>refs := (refs h)(next_free h := 1), next_free := Suc (next_free h)\<rparr>)),
      up_ref_method = (\<lambda>m h. (1, h\<lparr>refs := (refs h)(m := refs h m + 1)\<rparr>)),
      free_method = (\<lambda>m h. h\<lparr>refs := (refs h)(m := refs h m - 1)\<rparr>),
      ossl_method_store_fetch = (\<lambda>st methid q.
        case filter (\<lambda>e. fst e = methid) (methods st) of
          [] \<Rightarrow> None
        | e # es \<Rightarrow> Some (snd (snd e))),
      ossl_method_construct = (\<lambda>M s operation_id nm q.
        case mcm_construct M nm [] None (heap s) of
          (None, h) \<Rightarrow> (None, s\<lparr>heap := h\<rparr>)
        | (Some a, h) \<Rightarrow>
            (case mcm_put M (s\<lparr>heap := h\<rparr>) None a operation_id nm [] of
               (ok, s1, st) \<Rightarrow>
                 mcm_get M (s1\<lparr>heap := mcm_destruct M a (heap s1)\<rparr>) None operation_id nm q))\<rparr>"

definition example_libctx :: "rc_heap libctx" where
  "example_libctx =
     \<lparr>lc_store = Some ossl_method_store_new, lc_namemap = Some [],
      heap = \<lparr>refs = (\<lambda>a. 0), next_free = 100\<rparr>\<rparr>"

definition example_after :: "rc_heap libctx" where
  "example_after =
     \<lparr>lc_store = Some \<lparr>methods = [(257, [], 100)], cache = (\<lambda>k. None)((257, []) \<mapsto> 100)\<rparr>,
      lc_namemap = Some [''sha256''],
      heap = \<lparr>refs = (\<lambda>a. 0)(100 := 2), next_free = 101\<rparr>\<rparr>"

text \<open>
  The same callbacks over a reference counter that holds at most two references: adding
  a third one fails, returning 0 and leaving the count as it is.
\<close>

definition saturating_env :: "rc_heap fetch_env" where
  "saturating_env =
     example_env\<lparr>up_ref_method := (\<lambda>m h.
        if refs h m < 2 then (1, h\<lparr>refs := (refs h)(m := refs h m + 1)\<rparr>) else (0, h))\<rparr>"

chapter \<open>Properties\<close>

section \<open>Method identities\<close>

lemma bit_below_width:
  fixes x :: uint32
  assumes "x < 2 ^ m" and "bit x k"
  shows "k < m"
proof -
  have "take_bit m x = x"
    using assms(1) by (simp add: take_bit_eq_mask less_mask_eq)
  then have "bit (take_bit m x) k"
    using assms(2) by simp
  then show ?thesis
    by (simp add: bit_take_bit_iff)
qed

lemma name_field_mask:
  fixes name_id :: uint32
  assumes "name_id < 2 ^ 24"
  shows "push_bit 8 name_id AND 0xFFFFFF00 = push_bit 8 name_id"
proof -
  have c: "(0xFFFFFF00 :: uint32) = push_bit 8 (mask 24)"
    by (simp add: mask_eq_exp_minus_1)
  have b: "\<And>k. bit name_id k \<Longrightarrow> k < 24"
    using bit_below_width [OF assms] .
  show ?thesis
    unfolding c by (rule bit_word_eqI) (auto simp add: bit_simps dest: b)
qed

lemma op_field_mask:
  fixes x :: uint32
  assumes a: "x < 2 ^ 8"
  shows "x AND 0xFF = x"
proof -
  have "(0xFF :: uint32) = mask 8"
    by (simp add: mask_eq_exp_minus_1)
  then show ?thesis
    using less_mask_eq [OF a] by simp
qed

lemma packed_name_field:
  fixes n op :: uint32
  assumes "n < 2 ^ 24" and "op < 2 ^ 8"
  shows "drop_bit 8 (push_bit 8 n OR op) = n"
proof -
  have b: "\<And>k. bit n k \<Longrightarrow> k < 24"
    using bit_below_width [OF assms(1)] .
  have c: "\<And>k. bit op k \<Longrightarrow> k < 8"
    using bit_below_width [OF assms(2)] .
  show ?thesis
    by (rule bit_word_eqI) (auto simp add: bit_simps dest: b c)
qed

lemma packed_op_field:
  fixes n op :: uint32
  assumes "op < 2 ^ 8"
  shows "take_bit 8 (push_bit 8 n OR op) = op"
proof -
  have c: "\<And>k. bit op k \<Longrightarrow> k < 8"
    using bit_below_width [OF assms(1)] .
  show ?thesis
    by (rule bit_word_eqI) (auto simp add: bit_simps dest: c)
qed

lemma method_id_in_range:
  assumes "0 < name_id" and "name_id < 2 ^ 24"
    and "0 < operation_id" and "operation_id < 2 ^ 8"
  shows "method_id operation_id name_id = push_bit 8 name_id OR operation_id"
proof -
  have "method_id operation_id name_id =
      (push_bit 8 name_id AND 0xFFFFFF00) OR (operation_id AND 0xFF)"
    using assms by (simp add: method_id_def ossl_assert_def)
  then show ?thesis
    by (simp only: name_field_mask [OF assms(2)] op_field_mask [OF assms(4)])
qed

text \<open>
  C3 (amended). Within the width invariants (\<open>0 < name_id < 2^24\<close> and
  \<open>0 < operation_id < 2^8\<close>) \<open>method_id\<close> is \<open>(name_id << 8) | operation_id\<close>, is not
  zero, and no other pair within the widths has the same method id.
\<close>

theorem method_id_unique_within_widths:
  assumes "0 < name_id" and "name_id < 2 ^ 24"
    and "0 < operation_id" and "operation_id < 2 ^ 8"
  shows "method_id operation_id name_id = push_bit 8 name_id OR operation_id
    \<and> method_id operation_id name_id \<noteq> 0
    \<and> (\<forall>op' n'. 0 < n' \<and> n' < 2 ^ 24 \<and> 0 < op' \<and> op' < 2 ^ 8
          \<and> method_id op' n' = method_id operation_id name_id
        \<longrightarrow> op' = operation_id \<and> n' = name_id)"
proof (intro conjI allI impI)
  show eq: "method_id operation_id name_id = push_bit 8 name_id OR operation_id"
    using assms by (rule method_id_in_range)
  show "method_id operation_id name_id \<noteq> 0"
  proof
    assume "method_id operation_id name_id = 0"
    then have "drop_bit 8 (push_bit 8 name_id OR operation_id) = 0"
      by (simp add: eq)
    then have "name_id = 0"
      unfolding packed_name_field [OF assms(2,4)] .
    then show False
      using assms(1) by simp
  qed
next
  fix op' n' :: uint32
  assume h: "0 < n' \<and> n' < 2 ^ 24 \<and> 0 < op' \<and> op' < 2 ^ 8
    \<and> method_id op' n' = method_id operation_id name_id"
  have "method_id op' n' = push_bit 8 n' OR op'"
    using h by (intro method_id_in_range) simp_all
  moreover have "method_id operation_id name_id = push_bit 8 name_id OR operation_id"
    using assms by (rule method_id_in_range)
  ultimately have e: "push_bit 8 n' OR op' = push_bit 8 name_id OR operation_id"
    using h by simp
  have n'24: "n' < 2 ^ 24" and op'8: "op' < 2 ^ 8"
    using h by simp_all
  have "take_bit 8 (push_bit 8 n' OR op') = take_bit 8 (push_bit 8 name_id OR operation_id)"
    by (simp only: e)
  then show "op' = operation_id"
    by (simp only: packed_op_field [OF op'8] packed_op_field [OF assms(4)])
  have "drop_bit 8 (push_bit 8 n' OR op') = drop_bit 8 (push_bit 8 name_id OR operation_id)"
    by (simp only: e)
  then show "n' = name_id"
    by (simp only: packed_name_field [OF n'24 op'8] packed_name_field [OF assms(2,4)])
qed

theorem method_id_unique_within_widths_witness:
  "method_id 1 1 = 257 \<and> method_id 1 1 \<noteq> 0 \<and> method_id 2 1 \<noteq> method_id 1 1"
proof -
  have a: "(0::uint32) < 1" and b: "(1::uint32) < 2 ^ 24" and c: "(1::uint32) < 2 ^ 8"
    by simp_all
  note t = method_id_unique_within_widths [OF a b a c]
  have "method_id 2 1 \<noteq> method_id 1 1"
  proof
    assume "method_id 2 1 = method_id 1 1"
    moreover have "(0::uint32) < 1 \<and> (1::uint32) < 2 ^ 24 \<and> (0::uint32) < 2 \<and> (2::uint32) < 2 ^ 8"
      by simp
    ultimately have "(2::uint32) = 1 \<and> (1::uint32) = 1"
      using t by blast
    then show False
      by simp
  qed
  moreover have "push_bit 8 (1::uint32) OR 1 = 257"
    by simp
  ultimately show ?thesis
    using t by simp
qed

text \<open>
  C3 as stated fails outside the widths: with \<open>operation_id = 256\<close> and
  \<open>name_id = 2^24\<close> (both positive) the first assertion fails and the result is 0; and
  the operation ids 256 and 512 collide under the name id 1, where the result is not
  \<open>(name_id << 8) | operation_id\<close> either.
\<close>

theorem method_id_outside_widths_counterexample:
  "(0::uint32) < 256 \<and> (0::uint32) < 16777216 \<and> method_id 256 16777216 = 0
   \<and> (0::uint32) < 512 \<and> (0::uint32) < 1 \<and> (512::uint32) \<noteq> 256
   \<and> method_id 512 1 = method_id 256 1
   \<and> method_id 512 1 \<noteq> push_bit 8 1 OR 512"
  by (simp add: method_id_def ossl_assert_def)

section \<open>The digest adapter\<close>

lemma id_cases:
  obtains "function_id e = 1" | "function_id e = 2" | "function_id e = 3" | "function_id e = 4"
  | "function_id e = 5" | "function_id e = 6" | "function_id e = 7" | "function_id e = 8"
  | "function_id e = 9" | "function_id e = 10" | "function_id e = 11"
  | "function_id e \<noteq> 1 \<and> function_id e \<noteq> 2 \<and> function_id e \<noteq> 3 \<and> function_id e \<noteq> 4
   \<and> function_id e \<noteq> 5 \<and> function_id e \<noteq> 6 \<and> function_id e \<noteq> 7 \<and> function_id e \<noteq> 8
   \<and> function_id e \<noteq> 9 \<and> function_id e \<noteq> 10 \<and> function_id e \<noteq> 11"
  by blast

lemma step_inv_refl: "step_inv e md c md c"
  by (simp add: step_inv_def)

lemma five_count_newctx:
  "newctx md = None \<Longrightarrow> p \<noteq> None \<Longrightarrow> five_count (md\<lparr>newctx := p\<rparr>) = five_count md + 1"
  by (simp add: five_count_def)

lemma step_inv_newctx:
  assumes "function_id e = 1" and "from_dispatch_case e (md, c) = (md', c')"
  shows "step_inv e md c md' c'"
proof (cases "newctx md")
  case None
  then have "md' = md\<lparr>newctx := function_ptr e\<rparr>" and "c' = c + 1"
    using assms by (simp_all add: from_dispatch_case_def digest_func_ids)
  then show ?thesis
    using None assms(1) by (simp add: step_inv_def five_count_newctx)
next
  case (Some a)
  then have "md' = md" and "c' = c"
    using assms by (simp_all add: from_dispatch_case_def digest_func_ids)
  then show ?thesis
    by (simp add: step_inv_refl)
qed

lemma five_count_dinit:
  "dinit md = None \<Longrightarrow> p \<noteq> None \<Longrightarrow> five_count (md\<lparr>dinit := p\<rparr>) = five_count md + 1"
  by (simp add: five_count_def)

lemma step_inv_dinit:
  assumes "function_id e = 2" and "from_dispatch_case e (md, c) = (md', c')"
  shows "step_inv e md c md' c'"
proof (cases "dinit md")
  case None
  then have "md' = md\<lparr>dinit := function_ptr e\<rparr>" and "c' = c + 1"
    using assms by (simp_all add: from_dispatch_case_def digest_func_ids)
  then show ?thesis
    using None assms(1) by (simp add: step_inv_def five_count_dinit)
next
  case (Some a)
  then have "md' = md" and "c' = c"
    using assms by (simp_all add: from_dispatch_case_def digest_func_ids)
  then show ?thesis
    by (simp add: step_inv_refl)
qed

lemma five_count_dupdate:
  "dupdate md = None \<Longrightarrow> p \<noteq> None \<Longrightarrow> five_count (md\<lparr>dupdate := p\<rparr>) = five_count md + 1"
  by (simp add: five_count_def)

lemma step_inv_dupdate:
  assumes "function_id e = 3" and "from_dispatch_case e (md, c) = (md', c')"
  shows "step_inv e md c md' c'"
proof (cases "dupdate md")
  case None
  then have "md' = md\<lparr>dupdate := function_ptr e\<rparr>" and "c' = c + 1"
    using assms by (simp_all add: from_dispatch_case_def digest_func_ids)
  then show ?thesis
    using None assms(1) by (simp add: step_inv_def five_count_dupdate)
next
  case (Some a)
  then have "md' = md" and "c' = c"
    using assms by (simp_all add: from_dispatch_case_def digest_func_ids)
  then show ?thesis
    by (simp add: step_inv_refl)
qed

lemma five_count_dfinal:
  "dfinal md = None \<Longrightarrow> p \<noteq> None \<Longrightarrow> five_count (md\<lparr>dfinal := p\<rparr>) = five_count md + 1"
  by (simp add: five_count_def)

lemma step_inv_dfinal:
  assumes "function_id e = 4" and "from_dispatch_case e (md, c) = (md', c')"
  shows "step_inv e md c md' c'"
proof (cases "dfinal md")
  case None
  then have "md' = md\<lparr>dfinal := function_ptr e\<rparr>" and "c' = c + 1"
    using assms by (simp_all add: from_dispatch_case_def digest_func_ids)
  then show ?thesis
    using None assms(1) by (simp add: step_inv_def five_count_dfinal)
next
  case (Some a)
  then have "md' = md" and "c' = c"
    using assms by (simp_all add: from_dispatch_case_def digest_func_ids)
  then show ?thesis
    by (simp add: step_inv_refl)
qed

lemma five_count_digest_fn: "five_count (md\<lparr>digest_fn := p\<rparr>) = five_count md"
  by (simp add: five_count_def)

lemma step_inv_digest_fn:
  assumes "function_id e = 5" and "from_dispatch_case e (md, c) = (md', c')"
  shows "step_inv e md c md' c'"
proof (cases "digest_fn md")
  case None
  then have "md' = md\<lparr>digest_fn := function_ptr e\<rparr>" and "c' = c"
    using assms by (simp_all add: from_dispatch_case_def digest_func_ids)
  then show ?thesis
    using None assms(1) by (simp add: step_inv_def five_count_digest_fn)
next
  case (Some a)
  then have "md' = md" and "c' = c"
    using assms by (simp_all add: from_dispatch_case_def digest_func_ids)
  then show ?thesis
    by (simp add: step_inv_refl)
qed

lemma five_count_freectx:
  "freectx md = None \<Longrightarrow> p \<noteq> None \<Longrightarrow> five_count (md\<lparr>freectx := p\<rparr>) = five_count md + 1"
  by (simp add: five_count_def)

lemma step_inv_freectx:
  assumes "function_id e = 6" and "from_dispatch_case e (md, c) = (md', c')"
  shows "step_inv e md c md' c'"
proof (cases "freectx md")
  case None
  then have "md' = md\<lparr>freectx := function_ptr e\<rparr>" and "c' = c + 1"
    using assms by (simp_all add: from_dispatch_case_def digest_func_ids)
  then show ?thesis
    using None assms(1) by (simp add: step_inv_def five_count_freectx)
next
  case (Some a)
  then have "md' = md" and "c' = c"
    using assms by (simp_all add: from_dispatch_case_def digest_func_ids)
  then show ?thesis
    by (simp add: step_inv_refl)
qed

lemma five_count_dupctx: "five_count (md\<lparr>dupctx := p\<rparr>) = five_count md"
  by (simp add: five_count_def)

lemma step_inv_dupctx:
  assumes "function_id e = 7" and "from_dispatch_case e (md, c) = (md', c')"
  shows "step_inv e md c md' c'"
proof (cases "dupctx md")
  case None
  then have "md' = md\<lparr>dupctx := function_ptr e\<rparr>" and "c' = c"
    using assms by (simp_all add: from_dispatch_case_def digest_func_ids)
  then show ?thesis
    using None assms(1) by (simp add: step_inv_def five_count_dupctx)
next
  case (Some a)
  then have "md' = md" and "c' = c"
    using assms by (simp_all add: from_dispatch_case_def digest_func_ids)
  then show ?thesis
    by (simp add: step_inv_refl)
qed

lemma five_count_size_fn: "five_count (md\<lparr>size_fn := p\<rparr>) = five_count md"
  by (simp add: five_count_def)

lemma step_inv_size_fn:
  assumes "function_id e = 8" and "from_dispatch_case e (md, c) = (md', c')"
  shows "step_inv e md c md' c'"
proof (cases "size_fn md")
  case None
  then have "md' = md\<lparr>size_fn := function_ptr e\<rparr>" and "c' = c"
    using assms by (simp_all add: from_dispatch_case_def digest_func_ids)
  then show ?thesis
    using None assms(1) by (simp add: step_inv_def five_count_size_fn)
next
  case (Some a)
  then have "md' = md" and "c' = c"
    using assms by (simp_all add: from_dispatch_case_def digest_func_ids)
  then show ?thesis
    by (simp add: step_inv_refl)
qed

lemma five_count_dblock_size: "five_count (md\<lparr>dblock_size := p\<rparr>) = five_count md"
  by (simp add: five_count_def)

lemma step_inv_dblock_size:
  assumes "function_id e = 9" and "from_dispatch_case e (md, c) = (md', c')"
  shows "step_inv e md c md' c'"
proof (cases "dblock_size md")
  case None
  then have "md' = md\<lparr>dblock_size := function_ptr e\<rparr>" and "c' = c"
    using assms by (simp_all add: from_dispatch_case_def digest_func_ids)
  then show ?thesis
    using None assms(1) by (simp add: step_inv_def five_count_dblock_size)
next
  case (Some a)
  then have "md' = md" and "c' = c"
    using assms by (simp_all add: from_dispatch_case_def digest_func_ids)
  then show ?thesis
    by (simp add: step_inv_refl)
qed

lemma five_count_set_params: "five_count (md\<lparr>set_params := p\<rparr>) = five_count md"
  by (simp add: five_count_def)

lemma step_inv_set_params:
  assumes "function_id e = 10" and "from_dispatch_case e (md, c) = (md', c')"
  shows "step_inv e md c md' c'"
proof (cases "set_params md")
  case None
  then have "md' = md\<lparr>set_params := function_ptr e\<rparr>" and "c' = c"
    using assms by (simp_all add: from_dispatch_case_def digest_func_ids)
  then show ?thesis
    using None assms(1) by (simp add: step_inv_def five_count_set_params)
next
  case (Some a)
  then have "md' = md" and "c' = c"
    using assms by (simp_all add: from_dispatch_case_def digest_func_ids)
  then show ?thesis
    by (simp add: step_inv_refl)
qed

lemma five_count_get_params: "five_count (md\<lparr>get_params := p\<rparr>) = five_count md"
  by (simp add: five_count_def)

lemma step_inv_get_params:
  assumes "function_id e = 11" and "from_dispatch_case e (md, c) = (md', c')"
  shows "step_inv e md c md' c'"
proof (cases "get_params md")
  case None
  then have "md' = md\<lparr>get_params := function_ptr e\<rparr>" and "c' = c"
    using assms by (simp_all add: from_dispatch_case_def digest_func_ids)
  then show ?thesis
    using None assms(1) by (simp add: step_inv_def five_count_get_params)
next
  case (Some a)
  then have "md' = md" and "c' = c"
    using assms by (simp_all add: from_dispatch_case_def digest_func_ids)
  then show ?thesis
    by (simp add: step_inv_refl)
qed

lemma step_inv_case:
  assumes "from_dispatch_case e (md, c) = (md', c')"
  shows "step_inv e md c md' c'"
proof (cases e rule: id_cases)
  case 12
  then have "md' = md" and "c' = c"
    using assms by (simp_all add: from_dispatch_case_def digest_func_ids)
  then show ?thesis
    by (simp add: step_inv_refl)
qed (use assms in \<open>simp_all add: step_inv_newctx step_inv_dinit step_inv_dupdate step_inv_dfinal step_inv_digest_fn step_inv_freectx step_inv_dupctx step_inv_size_fn step_inv_dblock_size step_inv_set_params step_inv_get_params\<close>)

lemma supplies_Cons:
  "function_id e \<noteq> 0 \<Longrightarrow> supplies (e # es) i \<longleftrightarrow> function_id e = i \<or> supplies es i"
  by (auto simp add: supplies_def)

lemma well_formed_Cons:
  "function_id e \<noteq> 0 \<Longrightarrow>
     well_formed_table (e # es) \<longleftrightarrow> function_ptr e \<noteq> None \<and> well_formed_table es"
  by (simp add: well_formed_table_def)

lemma loop_inv_step:
  assumes e: "function_id e \<noteq> 0" and st: "step_inv e md c md1 c1"
    and lp: "loop_inv es md1 c1 md' c'"
  shows "loop_inv (e # es) md c md' c'"
proof -
  have count: "well_formed_table (e # es) \<longrightarrow> c' - five_count md' = c - five_count md"
  proof
    assume "well_formed_table (e # es)"
    then have "function_ptr e \<noteq> None" and "well_formed_table es"
      using well_formed_Cons [OF e] by simp_all
    then have "c1 - five_count md1 = c - five_count md"
      and "c' - five_count md' = c1 - five_count md1"
      using st lp by (simp_all add: step_inv_def loop_inv_def)
    then show "c' - five_count md' = c - five_count md"
      by simp
  qed
  have slot: "\<And>(s :: EVP_MD \<Rightarrow> fnptr option) i.
      (s md1 \<noteq> None \<longrightarrow> s md \<noteq> None \<or> function_id e = i) \<Longrightarrow>
      (s md' \<noteq> None \<longrightarrow> s md1 \<noteq> None \<or> supplies es i) \<Longrightarrow>
      (s md' \<noteq> None \<longrightarrow> s md \<noteq> None \<or> supplies (e # es) i)"
    unfolding supplies_Cons [OF e] by blast
  have frame: "md_refcnt md' = md_refcnt md \<and> md_name md' = md_name md
      \<and> md_prov md' = md_prov md"
    using st lp by (simp add: step_inv_def loop_inv_def)
  have s1: "newctx md' \<noteq> None \<longrightarrow> newctx md \<noteq> None \<or> supplies (e # es) 1"
    using st lp by (intro slot) (simp_all add: step_inv_def loop_inv_def)
  have s2: "dinit md' \<noteq> None \<longrightarrow> dinit md \<noteq> None \<or> supplies (e # es) 2"
    using st lp by (intro slot) (simp_all add: step_inv_def loop_inv_def)
  have s3: "dupdate md' \<noteq> None \<longrightarrow> dupdate md \<noteq> None \<or> supplies (e # es) 3"
    using st lp by (intro slot) (simp_all add: step_inv_def loop_inv_def)
  have s4: "dfinal md' \<noteq> None \<longrightarrow> dfinal md \<noteq> None \<or> supplies (e # es) 4"
    using st lp by (intro slot) (simp_all add: step_inv_def loop_inv_def)
  have s5: "digest_fn md' \<noteq> None \<longrightarrow> digest_fn md \<noteq> None \<or> supplies (e # es) 5"
    using st lp by (intro slot) (simp_all add: step_inv_def loop_inv_def)
  have s6: "freectx md' \<noteq> None \<longrightarrow> freectx md \<noteq> None \<or> supplies (e # es) 6"
    using st lp by (intro slot) (simp_all add: step_inv_def loop_inv_def)
  have s8: "size_fn md' \<noteq> None \<longrightarrow> size_fn md \<noteq> None \<or> supplies (e # es) 8"
    using st lp by (intro slot) (simp_all add: step_inv_def loop_inv_def)
  show ?thesis
    unfolding loop_inv_def using count s1 s2 s3 s4 s5 s6 s8 frame by blast
qed

lemma from_dispatch_loop_inv:
  "from_dispatch_loop fns (md, c) = (md', c') \<Longrightarrow> loop_inv fns md c md' c'"
proof (induction fns arbitrary: md c)
  case Nil
  then show ?case
    by (simp add: loop_inv_def)
next
  case (Cons e es)
  show ?case
  proof (cases "function_id e = 0")
    case True
    then show ?thesis
      using Cons.prems by (simp add: loop_inv_def)
  next
    case False
    obtain md1 c1 where s: "from_dispatch_case e (md, c) = (md1, c1)"
      by fastforce
    then have "from_dispatch_loop es (md1, c1) = (md', c')"
      using Cons.prems False by simp
    then have "loop_inv es md1 c1 md' c'"
      by (rule Cons.IH)
    with False step_inv_case [OF s] show ?thesis
      by (rule loop_inv_step)
  qed
qed

lemma five_count_5:
  assumes "five_count md = 5"
  shows "newctx md \<noteq> None \<and> dinit md \<noteq> None \<and> dupdate md \<noteq> None \<and> dfinal md \<noteq> None
    \<and> freectx md \<noteq> None"
proof -
  have b: "\<And>P. (of_bool P :: int) \<le> 1" "\<And>P. (of_bool P :: int) = 1 \<longleftrightarrow> P"
    by simp_all
  have "of_bool (newctx md \<noteq> None) = (1::int) \<and> of_bool (dinit md \<noteq> None) = (1::int)
    \<and> of_bool (dupdate md \<noteq> None) = (1::int) \<and> of_bool (dfinal md \<noteq> None) = (1::int)
    \<and> of_bool (freectx md \<noteq> None) = (1::int)"
    using assms b(1) [of "newctx md \<noteq> None"] b(1) [of "dinit md \<noteq> None"]
      b(1) [of "dupdate md \<noteq> None"] b(1) [of "dfinal md \<noteq> None"]
      b(1) [of "freectx md \<noteq> None"]
    unfolding five_count_def by linarith
  then show ?thesis
    unfolding b(2) .
qed

lemma meth_free_fresh:
  assumes "md_refcnt md = 1" and "md_prov md = None"
  shows "EVP_MD_meth_free (Some md) h =
    (case md_name md of None \<Rightarrow> free_block h | Some s \<Rightarrow> free_block (free_block h))"
  using assms
  by (simp add: EVP_MD_meth_free_def ossl_provider_free_def Let_def split: option.splits)

lemma meth_new_result:
  "EVP_MD_meth_new t k h = (Some md0, h1) \<Longrightarrow>
     live h1 = live h + 1 \<and> prov_refs h1 = prov_refs h \<and> md_refcnt md0 = 1
     \<and> md_prov md0 = None \<and> md_name md0 = None \<and> five_count md0 = 0
     \<and> newctx md0 = None \<and> dinit md0 = None \<and> dupdate md0 = None \<and> dfinal md0 = None
     \<and> freectx md0 = None \<and> digest_fn md0 = None \<and> size_fn md0 = None"
  by (auto simp add: EVP_MD_meth_new_def alloc_block_def five_count_def
      split: option.splits if_splits)

lemma meth_new_fail: "EVP_MD_meth_new t k h = (None, h1) \<Longrightarrow> h1 = h"
  by (simp add: EVP_MD_meth_new_def split: option.splits)

lemma strdup_result:
  "OPENSSL_strdup s h = (r, h') \<Longrightarrow>
     prov_refs h' = prov_refs h \<and> (case r of None \<Rightarrow> h' = h | Some s' \<Rightarrow> s' = s \<and> live h' = live h + 1)"
  by (auto simp add: OPENSSL_strdup_def alloc_block_def split: option.splits if_splits)

text \<open>
  The completeness rule on well-formed tables. When no entry before the terminator is a
  null pointer, \<open>evp_md_from_dispatch\<close> returns a record only if the table supplies all five
  of \<open>newctx\<close>, \<open>init\<close>, \<open>update\<close>, \<open>final\<close> and \<open>freectx\<close>, or the one-shot \<open>digest\<close>, and in
  both cases \<open>size\<close>; and whenever it returns null, on any table, every block it
  allocated has been released again and no provider reference was taken.
\<close>

theorem from_dispatch_well_formed:
  assumes wf: "well_formed_table fns"
  shows "(fst (evp_md_from_dispatch nm fns prv h) \<noteq> None \<longrightarrow> complete_table fns)
    \<and> (fst (evp_md_from_dispatch nm fns prv h) = None \<longrightarrow>
         live (snd (evp_md_from_dispatch nm fns prv h)) = live h
         \<and> prov_refs (snd (evp_md_from_dispatch nm fns prv h)) = prov_refs h)"
proof -
  obtain r1 h1 where a1: "EVP_MD_meth_new NID_undef NID_undef h = (r1, h1)"
    by fastforce
  show ?thesis
  proof (cases r1)
    case None
    then have "h1 = h"
      using a1 by (simp add: meth_new_fail)
    then have "evp_md_from_dispatch nm fns prv h = (None, EVPerr ERR_R_MALLOC_FAILURE h)"
      using a1 None by (simp add: evp_md_from_dispatch_def EVP_MD_meth_free_def)
    then show ?thesis
      by (simp add: EVPerr_def)
  next
    case (Some md0)
    note n = meth_new_result [OF a1 [unfolded Some]]
    obtain r2 h2 where a2: "OPENSSL_strdup nm h1 = (r2, h2)"
      by fastforce
    note d = strdup_result [OF a2]
    show ?thesis
    proof (cases r2)
      case None
      then have "h2 = h1"
        using d by simp
      moreover have "EVP_MD_meth_free (Some md0) h1 = free_block h1"
        using n by (simp add: meth_free_fresh)
      ultimately have "evp_md_from_dispatch nm fns prv h =
          (None, EVPerr ERR_R_MALLOC_FAILURE (free_block h1))"
        using a1 a2 Some None by (simp add: evp_md_from_dispatch_def)
      then show ?thesis
        using n by (simp add: EVPerr_def free_block_def)
    next
      case (Some s)
      then have s: "s = nm" and l2: "live h2 = live h + 2" and p2: "prov_refs h2 = prov_refs h"
        using d n by simp_all
      obtain md fncnt where
        lp: "from_dispatch_loop fns (md0\<lparr>md_name := Some nm\<rparr>, 0) = (md, fncnt)"
        by fastforce
      have z: "five_count (md0\<lparr>md_name := Some nm\<rparr>) = 0"
        using n by (simp add: five_count_def)
      have inv: "loop_inv fns (md0\<lparr>md_name := Some nm\<rparr>) 0 md fncnt"
        using lp by (rule from_dispatch_loop_inv)
      then have cnt: "fncnt = five_count md"
        using wf z by (simp add: loop_inv_def)
      have fr: "md_refcnt md = 1" "md_prov md = None" "md_name md = Some nm"
        using inv n by (simp_all add: loop_inv_def)
      have sl: "newctx md \<noteq> None \<longrightarrow> supplies fns 1" "dinit md \<noteq> None \<longrightarrow> supplies fns 2"
        "dupdate md \<noteq> None \<longrightarrow> supplies fns 3" "dfinal md \<noteq> None \<longrightarrow> supplies fns 4"
        "digest_fn md \<noteq> None \<longrightarrow> supplies fns 5" "freectx md \<noteq> None \<longrightarrow> supplies fns 6"
        "size_fn md \<noteq> None \<longrightarrow> supplies fns 8"
        using inv n by (simp_all add: loop_inv_def)
      show ?thesis
      proof (cases "(fncnt \<noteq> 0 \<and> fncnt \<noteq> 5) \<or> (fncnt = 0 \<and> digest_fn md = None)
          \<or> size_fn md = None")
        case True
        then have "evp_md_from_dispatch nm fns prv h = (None, EVP_MD_meth_free (Some md) h2)"
          using a1 a2 \<open>r1 = Some md0\<close> \<open>r2 = Some s\<close> s lp
          by (simp add: evp_md_from_dispatch_def)
        moreover have "EVP_MD_meth_free (Some md) h2 = free_block (free_block h2)"
          using fr by (simp add: meth_free_fresh)
        ultimately show ?thesis
          using l2 p2 by (simp add: free_block_def)
      next
        case False
        then have ok: "fncnt = 5 \<or> (fncnt = 0 \<and> digest_fn md \<noteq> None)" "size_fn md \<noteq> None"
          by auto
        have "fst (evp_md_from_dispatch nm fns prv h) = Some (md\<lparr>md_prov := prv\<rparr>)"
          using False a1 a2 \<open>r1 = Some md0\<close> \<open>r2 = Some s\<close> s lp
          by (simp add: evp_md_from_dispatch_def)
        moreover have "complete_table fns"
        proof -
          have "(supplies fns 1 \<and> supplies fns 2 \<and> supplies fns 3 \<and> supplies fns 4
              \<and> supplies fns 6) \<or> supplies fns 5"
            using ok(1)
          proof
            assume "fncnt = 5"
            then have "five_count md = 5"
              using cnt by simp
            from five_count_5 [OF this] sl show ?thesis
              by blast
          next
            assume "fncnt = 0 \<and> digest_fn md \<noteq> None"
            then show ?thesis
              using sl by blast
          qed
          moreover have "supplies fns 8"
            using ok(2) sl by blast
          ultimately show ?thesis
            by (simp add: complete_table_def digest_func_ids)
        qed
        ultimately show ?thesis
          by simp
      qed
    qed
  qed
qed

theorem from_dispatch_well_formed_witness:
  "complete_table sha256_table
   \<and> fst (evp_md_from_dispatch ''SHA256'' partial_table (Some 7) example_runtime) = None
   \<and> live (snd (evp_md_from_dispatch ''SHA256'' partial_table (Some 7) example_runtime)) = 0"
proof -
  have w1: "well_formed_table sha256_table" and w2: "well_formed_table partial_table"
    by (simp_all add: well_formed_table_def sha256_table_def partial_table_def)
  have r1: "fst (evp_md_from_dispatch ''SHA256'' sha256_table (Some 7) example_runtime) \<noteq> None"
    by (simp add: sha256_table_def digest_func_ids evp_md_from_dispatch_def
        EVP_MD_meth_new_def OPENSSL_strdup_def alloc_block_def example_runtime_def
        NID_undef_def from_dispatch_case_def)
  have r2: "fst (evp_md_from_dispatch ''SHA256'' partial_table (Some 7) example_runtime) = None"
    by (simp add: partial_table_def digest_func_ids evp_md_from_dispatch_def
        EVP_MD_meth_new_def OPENSSL_strdup_def alloc_block_def example_runtime_def
        NID_undef_def from_dispatch_case_def)
  have l: "live example_runtime = 0"
    by (simp add: example_runtime_def)
  from from_dispatch_well_formed [OF w1, of "''SHA256''" "Some 7" example_runtime] r1
    from_dispatch_well_formed [OF w2, of "''SHA256''" "Some 7" example_runtime] r2 l
  show ?thesis
    by simp
qed

text \<open>
  C1 at a table with null function pointers. The table below has five entries for
  \<open>newctx\<close>, each a null pointer, then \<open>size\<close>. It supplies neither all five context
  functions nor \<open>digest\<close>, yet each null \<open>newctx\<close> entry finds the slot still null and
  counts once more, the counter reaches 5, and the adapter returns a record none of
  whose five context functions is set.
\<close>

theorem from_dispatch_null_pointers_accepted:
  "\<not> complete_table null_newctx_table
   \<and> fst (evp_md_from_dispatch ''SHA256'' null_newctx_table (Some 7) example_runtime) =
       Some \<lparr>md_type = 0, md_name = Some ''SHA256'', md_prov = Some 7, md_refcnt = 1,
         newctx = None, dinit = None, dupdate = None, dfinal = None, digest_fn = None,
         freectx = None, dupctx = None, size_fn = Some 80, dblock_size = None,
         set_params = None, get_params = None, cleanup = None, final = None, ctx_size = 0\<rparr>"
  by (simp add: complete_table_def supplies_def null_newctx_table_def digest_func_ids
      evp_md_from_dispatch_def EVP_MD_meth_new_def OPENSSL_strdup_def alloc_block_def
      example_runtime_def NID_undef_def from_dispatch_case_def)

section \<open>Digest contexts\<close>

lemma provider_digest_zero: "provider_digest EVP_MD_CTX_zero = None"
  by (simp add: provider_digest_def EVP_MD_CTX_zero_def)

lemma provider_digest_example: "provider_digest example_ctx = Some example_md"
  by (simp add: provider_digest_def example_ctx_def example_md_def)


lemma reset_example_ctx:
  "EVP_MD_CTX_reset (tracing ret sz mdsz) example_ctx w =
     (1, example_ctx\<lparr>provctx := None, flags := 2\<rparr>, w @ [Freectx 60 9])"
  by (simp add: EVP_MD_CTX_reset_def provider_digest_def EVP_MD_CTX_set_flags_def
      EVP_MD_CTX_FLAG_CLEANED_def example_ctx_def example_md_def tracing_def)


text \<open>
  C9. For every context, initialised or not, and every data pointer,
  \<open>EVP_DigestUpdate\<close> with \<open>count = 0\<close> returns 1 and leaves the context, the world
  outside the envelope (so no implementation code has run) and the error stack as they
  were, whatever the outside code would do.
\<close>

theorem EVP_DigestUpdate_count_zero:
  "EVP_DigestUpdate X c data 0 m = (Ret 1, c, m)"
  by (simp add: EVP_DigestUpdate_def)

theorem EVP_DigestUpdate_count_zero_witness:
  "EVP_DigestUpdate (tracing 1 32 32) EVP_MD_CTX_zero (Some 5) 0 \<lparr>world = [], errors = []\<rparr>
     = (Ret 1, EVP_MD_CTX_zero, \<lparr>world = [], errors = []\<rparr>)
   \<and> EVP_DigestUpdate (tracing 1 32 32) example_ctx None 0 \<lparr>world = [], errors = []\<rparr>
     = (Ret 1, example_ctx, \<lparr>world = [], errors = []\<rparr>)"
  using EVP_DigestUpdate_count_zero [of "tracing 1 32 32" EVP_MD_CTX_zero "Some 5"
      "\<lparr>world = [], errors = []\<rparr>"]
    EVP_DigestUpdate_count_zero [of "tracing 1 32 32" example_ctx None
      "\<lparr>world = [], errors = []\<rparr>"]
  by simp

text \<open>
  C6 (amended). On a context fresh from \<open>EVP_MD_CTX_new\<close>, \<open>EVP_DigestUpdate\<close> with
  \<open>count = 0\<close> returns 1, success and not a failure, for every data pointer; the context
  is still the zeroed one that \<open>EVP_MD_CTX_new\<close> made, and the world and the error stack
  are as they were, so nothing has been allocated.
\<close>

theorem empty_update_on_fresh_context:
  assumes "EVP_MD_CTX_new X w = (Some c, w')"
  shows "EVP_DigestUpdate X c data 0 m = (Ret 1, EVP_MD_CTX_zero, m)"
proof -
  have c: "c = EVP_MD_CTX_zero"
    using assms by (simp add: EVP_MD_CTX_new_def split: prod.splits option.splits)
  show ?thesis
    unfolding c by (simp add: EVP_DigestUpdate_def)
qed

theorem empty_update_on_fresh_context_witness:
  "EVP_MD_CTX_new (tracing 1 32 32) [] = (Some EVP_MD_CTX_zero, [Zalloc])
   \<and> EVP_DigestUpdate (tracing 1 32 32) EVP_MD_CTX_zero None 0
        \<lparr>world = [Zalloc], errors = []\<rparr>
      = (Ret 1, EVP_MD_CTX_zero, \<lparr>world = [Zalloc], errors = []\<rparr>)"
proof -
  have n: "EVP_MD_CTX_new (tracing 1 32 32) [] = (Some EVP_MD_CTX_zero, [Zalloc])"
    by (simp add: EVP_MD_CTX_new_def tracing_def)
  from empty_update_on_fresh_context [OF n] n show ?thesis
    by simp
qed

text \<open>
  C6 as stated fails at \<open>count = 0\<close>: on a context that has only been created, the
  update returns 1 and puts no error on the stack.
\<close>

theorem update_on_fresh_context_counterexample:
  "fst (EVP_MD_CTX_new (tracing 1 32 32) []) = Some EVP_MD_CTX_zero
   \<and> EVP_DigestUpdate (tracing 1 32 32) EVP_MD_CTX_zero (Some 5) 0
        \<lparr>world = [Zalloc], errors = []\<rparr>
      = (Ret 1, EVP_MD_CTX_zero, \<lparr>world = [Zalloc], errors = []\<rparr>)"
  by (simp add: EVP_MD_CTX_new_def tracing_def EVP_DigestUpdate_def)

text \<open>
  With a length that is not zero the fresh context has no digest, so the call takes the
  legacy path and goes through the context's \<open>update\<close> pointer, which is null: a call
  through a null function pointer, where the provider path tests its \<open>dupdate\<close> slot and
  returns 0 with \<open>EVP_R_UPDATE_ERROR\<close>.
\<close>

lemma fresh_context_update_nonzero_count:
  assumes "EVP_MD_CTX_new X w = (Some c, w')" and "count \<noteq> 0"
  shows "fst (EVP_DigestUpdate X c data count m) = Crash"
proof -
  have c: "c = EVP_MD_CTX_zero"
    using assms(1) by (simp add: EVP_MD_CTX_new_def split: prod.splits option.splits)
  have u: "update EVP_MD_CTX_zero = None"
    by (simp add: EVP_MD_CTX_zero_def)
  show ?thesis
    unfolding c using assms(2) by (simp add: EVP_DigestUpdate_def provider_digest_zero u)
qed

lemma provider_update_without_slot:
  assumes "provider_digest c = Some d" and "dupdate d = None" and "count \<noteq> 0"
  shows "EVP_DigestUpdate X c data count m = (Ret 0, c, put_error EVP_R_UPDATE_ERROR m)"
  using assms by (simp add: EVP_DigestUpdate_def)

text \<open>
  C5 (amended). On the provider path and without a public-key context,
  \<open>EVP_MD_CTX_reset\<close> returns 1 and releases the per-context provider state only: if
  \<open>provctx\<close> is set it is handed to \<open>freectx\<close> (when the digest has that slot), \<open>provctx\<close>
  becomes null and CLEANED is set. Every other field stays, among them \<open>digest\<close>,
  \<open>reqdigest\<close> and \<open>fetched_digest\<close>: the context keeps its reference to the
  implementation.
\<close>

theorem reset_provider_path:
  assumes "provider_digest c = Some d" and "pctx c = None"
  shows "EVP_MD_CTX_reset X c w =
    (1,
     (case provctx c of
        None \<Rightarrow> c
      | Some p \<Rightarrow> c\<lparr>provctx := None, flags := flags c OR EVP_MD_CTX_FLAG_CLEANED\<rparr>),
     (case provctx c of
        None \<Rightarrow> w
      | Some p \<Rightarrow> (case freectx d of None \<Rightarrow> w | Some f \<Rightarrow> call_freectx X f p w)))"
  using assms
  by (simp add: EVP_MD_CTX_reset_def EVP_MD_CTX_set_flags_def split: option.splits)

theorem reset_provider_path_witness:
  "EVP_MD_CTX_reset (tracing 1 32 32) example_ctx [] =
     (1, example_ctx\<lparr>provctx := None, flags := 2\<rparr>, [Freectx 60 9])"
proof -
  have p: "pctx example_ctx = None"
    by (simp add: example_ctx_def)
  from reset_provider_path [OF provider_digest_example p, of "tracing 1 32 32" "[]"]
  show ?thesis
    by (simp add: example_ctx_def example_md_def tracing_def EVP_MD_CTX_FLAG_CLEANED_def)
qed

text \<open>
  C5 as stated fails: after the reset of an initialised provider context the context
  still holds its fetched digest and is not the all-zero context that
  \<open>EVP_MD_CTX_new\<close> makes; the only outside call was \<open>freectx\<close>.
\<close>

theorem reset_keeps_implementation_counterexample:
  "provider_digest example_ctx = Some example_md
   \<and> fetched_digest (fst (snd (EVP_MD_CTX_reset (tracing 1 32 32) example_ctx []))) =
       Some example_md
   \<and> digest (fst (snd (EVP_MD_CTX_reset (tracing 1 32 32) example_ctx []))) = Some example_md
   \<and> fst (snd (EVP_MD_CTX_reset (tracing 1 32 32) example_ctx [])) \<noteq> EVP_MD_CTX_zero
   \<and> snd (snd (EVP_MD_CTX_reset (tracing 1 32 32) example_ctx [])) = [Freectx 60 9]"
  by (simp add: provider_digest_example reset_example_ctx)
     (simp add: example_ctx_def EVP_MD_CTX_zero_def)




section \<open>The DH key exchange\<close>

lemma be_bytes_0: "be_bytes 0 = []"
  by (subst be_bytes.simps) simp

lemma be_bytes_pos: "0 < n \<Longrightarrow> be_bytes n = be_bytes (n div 256) @ [of_nat (n mod 256)]"
  by (subst be_bytes.simps) simp

lemma num_bytes_0: "num_bytes 0 = 0"
  by (simp add: num_bytes_def be_bytes_0)

lemma num_bytes_pos: "0 < n \<Longrightarrow> num_bytes n = Suc (num_bytes (n div 256))"
  by (simp add: num_bytes_def be_bytes_pos)

lemma num_bytes_mono: "m \<le> n \<Longrightarrow> num_bytes m \<le> num_bytes n"
proof (induction n arbitrary: m rule: less_induct)
  case (less n)
  show ?case
  proof (cases "m = 0")
    case True
    then show ?thesis
      by (simp add: num_bytes_0)
  next
    case False
    then have m: "0 < m" and n: "0 < n"
      using less.prems by simp_all
    have "n div 256 < n"
      using n by simp
    moreover have "m div 256 \<le> n div 256"
      using less.prems by (rule div_le_mono)
    ultimately have "num_bytes (m div 256) \<le> num_bytes (n div 256)"
      by (rule less.IH)
    then show ?thesis
      by (simp add: num_bytes_pos m n)
  qed
qed

lemma be_bytes_empty: "be_bytes n = [] \<longleftrightarrow> n = 0"
  by (cases "n = 0") (simp_all add: be_bytes_0 be_bytes_pos)

lemma byte_of_small: "0 < n \<Longrightarrow> n < 256 \<Longrightarrow> (of_nat n :: byte) \<noteq> 0"
  by (simp add: word_of_nat_eq_0_iff dvd_def) presburger

lemma be_bytes_hd: "0 < n \<Longrightarrow> hd (be_bytes n) \<noteq> 0"
proof (induction n rule: less_induct)
  case (less n)
  show ?case
  proof (cases "n div 256 = 0")
    case True
    then have "n < 256"
      by (simp add: div_eq_0_iff)
    then show ?thesis
      using less.prems True by (simp add: be_bytes_pos be_bytes_0 byte_of_small)
  next
    case False
    then have "0 < n div 256" and "n div 256 < n"
      using less.prems by simp_all
    then have "hd (be_bytes (n div 256)) \<noteq> 0" and "be_bytes (n div 256) \<noteq> []"
      using less.IH by (simp_all add: be_bytes_empty)
    then show ?thesis
      using less.prems by (simp add: be_bytes_pos)
  qed
qed

text \<open>
  C2 (amended). The contract of \<open>dh_derive\<close>, whatever the DH library does. Without both
  a local and a peer key the call fails. With both: a null output pointer makes it
  store \<open>DH_size\<close> of the local key in \<open>*keylen\<close> and succeed, writing nothing; a capacity
  below that size makes it fail; otherwise it runs the (padded or plain) key
  computation, fails if that returns a value that is not positive, and else stores the
  returned byte count in \<open>*keylen\<close> and succeeds. After a successful \<open>dh_init\<close> and
  \<open>dh_set_peer\<close>, \<open>dh_derive\<close> with a null output and capacity 0 succeeds with \<open>*keylen\<close>
  equal to \<open>DH_size\<close>, which is positive when \<open>DH_size\<close> is.
\<close>

theorem dh_derive_contract:
  "(dh c = None \<or> dhpeer c = None \<longrightarrow> dh_derive L c key keylen outlen = (0, [], keylen))
   \<and> (\<forall>d peer. dh c = Some d \<and> dhpeer c = Some peer \<longrightarrow>
        (key = None \<longrightarrow>
           dh_derive L c key keylen outlen = (1, [], word_of_int (DH_size L d)))
      \<and> (key \<noteq> None \<and> outlen < word_of_int (DH_size L d) \<longrightarrow>
           dh_derive L c key keylen outlen = (0, [], keylen))
      \<and> (\<forall>ret written.
           key \<noteq> None \<and> \<not> outlen < word_of_int (DH_size L d)
           \<and> (if pad c \<noteq> 0 then DH_compute_key_padded L (dh_pub_key peer) d
               else DH_compute_key L (dh_pub_key peer) d) = (ret, written) \<longrightarrow>
           dh_derive L c key keylen outlen =
             (if ret \<le> 0 then (0, written, keylen) else (1, written, word_of_int ret))))
   \<and> (\<forall>c1 c2 d peer.
        dh_init c (Some d) = (1, c1) \<and> dh_set_peer c1 (Some peer) = (1, c2)
        \<and> 0 < DH_size L d \<and> DH_size L d < 2 ^ 31 \<longrightarrow>
        dh_derive L c2 None keylen 0 = (1, [], word_of_int (DH_size L d))
        \<and> (0 :: size_t) < word_of_int (DH_size L d))"
proof (intro conjI allI impI)
  assume "dh c = None \<or> dhpeer c = None"
  then show "dh_derive L c key keylen outlen = (0, [], keylen)"
    by (auto simp add: dh_derive_def split: option.splits)
next
  fix d peer
  assume k: "dh c = Some d \<and> dhpeer c = Some peer"
  {
    assume "key = None"
    then show "dh_derive L c key keylen outlen = (1, [], word_of_int (DH_size L d))"
      using k by (simp add: dh_derive_def Let_def)
  next
    assume "key \<noteq> None \<and> outlen < word_of_int (DH_size L d)"
    then show "dh_derive L c key keylen outlen = (0, [], keylen)"
      using k by (clarsimp simp add: dh_derive_def Let_def)
  next
    fix ret written
    assume "key \<noteq> None \<and> \<not> outlen < word_of_int (DH_size L d)
      \<and> (if pad c \<noteq> 0 then DH_compute_key_padded L (dh_pub_key peer) d
          else DH_compute_key L (dh_pub_key peer) d) = (ret, written)"
    then show "dh_derive L c key keylen outlen =
        (if ret \<le> 0 then (0, written, keylen) else (1, written, word_of_int ret))"
      using k by (clarsimp simp add: dh_derive_def Let_def)
  }
next
  fix c1 c2 d peer
  assume h: "dh_init c (Some d) = (1, c1) \<and> dh_set_peer c1 (Some peer) = (1, c2)
    \<and> 0 < DH_size L d \<and> DH_size L d < 2 ^ 31"
  then have "dh c2 = Some d" and "dhpeer c2 = Some peer"
    by (auto simp add: dh_init_def dh_set_peer_def)
  then show "dh_derive L c2 None keylen 0 = (1, [], word_of_int (DH_size L d))"
    by (simp add: dh_derive_def Let_def)
  have "uint (word_of_int (DH_size L d) :: size_t) = DH_size L d"
    using h by (simp add: uint_word_of_int take_bit_int_eq_self)
  then show "(0 :: size_t) < word_of_int (DH_size L d)"
    using h by (simp add: word_less_def)
qed

lemma num_bytes_65537: "num_bytes 65537 = 3"
  by (simp add: num_bytes_pos num_bytes_0)

lemma be_bytes_59049: "be_bytes 59049 = [230, 169]"
  by (simp add: be_bytes_pos be_bytes_0)

lemma spec_dh_alice:
  "DH_size spec_dh alice = 3"
  "DH_compute_key spec_dh (dh_pub_key bob) alice = (2, [230, 169])"
  "DH_compute_key_padded spec_dh (dh_pub_key bob) alice = (3, [0, 230, 169])"
  by (simp_all add: spec_dh_def alice_def bob_def shared_secret_def num_bytes_65537
      be_bytes_59049 Let_def)

theorem dh_derive_contract_witness:
  "dh_derive spec_dh \<lparr>dh = None, dhpeer = None, pad = 0\<rparr> (Some 0) 0 3 = (0, [], 0)
   \<and> dh_derive spec_dh dh_ctx None 0 0 = (1, [], 3)
   \<and> dh_derive spec_dh dh_ctx (Some 0) 0 2 = (0, [], 0)
   \<and> dh_derive spec_dh dh_ctx (Some 0) 0 3 = (1, [230, 169], 2)
   \<and> dh_init \<lparr>dh = None, dhpeer = None, pad = 0\<rparr> (Some alice)
       = (1, \<lparr>dh = Some alice, dhpeer = None, pad = 0\<rparr>)
   \<and> dh_set_peer \<lparr>dh = Some alice, dhpeer = None, pad = 0\<rparr> (Some bob) = (1, dh_ctx)
   \<and> (0 :: size_t) < 3"
proof -
  let ?c0 = "\<lparr>dh = None, dhpeer = None, pad = 0\<rparr>"
  let ?c1 = "\<lparr>dh = Some alice, dhpeer = None, pad = 0\<rparr>"
  have i: "dh_init ?c0 (Some alice) = (1, ?c1)" and p: "dh_set_peer ?c1 (Some bob) = (1, dh_ctx)"
    by (simp_all add: dh_init_def dh_set_peer_def dh_ctx_def)
  have k: "dh dh_ctx = Some alice \<and> dhpeer dh_ctx = Some bob" and pd: "pad dh_ctx = 0"
    by (simp_all add: dh_ctx_def)
  note t0 = dh_derive_contract [of ?c0 spec_dh "Some 0" 0 3, THEN conjunct1]
  note t1 = dh_derive_contract [of dh_ctx spec_dh None 0 0, THEN conjunct2, THEN conjunct1,
      rule_format, OF k, THEN conjunct1]
  note t2 = dh_derive_contract [of dh_ctx spec_dh "Some 0" 0 2, THEN conjunct2, THEN conjunct1,
      rule_format, OF k, THEN conjunct2, THEN conjunct1]
  note t3 = dh_derive_contract [of dh_ctx spec_dh "Some 0" 0 3, THEN conjunct2, THEN conjunct1,
      rule_format, OF k, THEN conjunct2, THEN conjunct2, rule_format, of 2 "[230, 169]"]
  note t4 = dh_derive_contract [of ?c0 spec_dh None 0 0, THEN conjunct2, THEN conjunct2,
      rule_format, of alice ?c1 bob dh_ctx]
  show ?thesis
    using t0 t1 t2 t3 t4 i p by (simp add: spec_dh_alice pd)
qed

text \<open>
  C2 as stated fails when the key computation fails: both keys are set, the output
  pointer is not null and the capacity suffices, and \<open>dh_derive\<close> returns 0.
\<close>

theorem dh_derive_compute_failure_counterexample:
  "dh dh_ctx = Some alice \<and> dhpeer dh_ctx = Some bob
   \<and> \<not> (3 :: size_t) < word_of_int (DH_size rejecting_dh alice)
   \<and> dh_derive rejecting_dh dh_ctx (Some 0) 0 3 = (0, [], 0)"
  by (simp add: dh_ctx_def dh_derive_def rejecting_dh_def)

text \<open>
  C8. Setting the parameter "pad" stores its value in the context, and the value decides
  the encoding \<open>dh_derive\<close> produces (keys present, modulus not zero, output buffer large
  enough): with a value other than 0 the output is the secret left-padded with zero
  bytes to exactly the modulus size; with 0 it is the secret without leading zero bytes,
  its first byte is not zero and \<open>*keylen\<close> is its length, at most the modulus size.
\<close>

theorem dh_pad_controls_encoding:
  assumes keys: "dh c = Some d \<and> dhpeer c = Some peer \<and> dh_priv_key d = Some x
      \<and> dh_pub_key peer = Some y \<and> 0 < dh_p d"
    and par: "OSSL_PARAM_locate_const ps OSSL_EXCHANGE_PARAM_PAD = Some q
      \<and> OSSL_PARAM_get_int q = Some v"
    and buf: "key \<noteq> None \<and> \<not> outlen < of_nat (num_bytes (dh_p d))"
    and z: "z = be_bytes (y ^ x mod dh_p d)"
  shows "dh_set_params (Some c) (Some ps) = (1, Some (c\<lparr>pad := v\<rparr>))
    \<and> (v \<noteq> 0 \<longrightarrow>
          dh_derive spec_dh (c\<lparr>pad := v\<rparr>) key keylen outlen =
            (1, replicate (num_bytes (dh_p d) - length z) 0 @ z, of_nat (num_bytes (dh_p d)))
          \<and> length (replicate (num_bytes (dh_p d) - length z) 0 @ z) = num_bytes (dh_p d))
    \<and> (v = 0 \<and> z \<noteq> [] \<longrightarrow>
          dh_derive spec_dh (c\<lparr>pad := v\<rparr>) key keylen outlen = (1, z, of_nat (length z))
          \<and> hd z \<noteq> 0 \<and> length z \<le> num_bytes (dh_p d))"
proof (intro conjI impI)
  show "dh_set_params (Some c) (Some ps) = (1, Some (c\<lparr>pad := v\<rparr>))"
    using par by (simp add: dh_set_params_def)
  have lt: "y ^ x mod dh_p d < dh_p d"
    using keys by simp
  then have le: "length z \<le> num_bytes (dh_p d)"
    unfolding z using num_bytes_mono [of "y ^ x mod dh_p d" "dh_p d"] by (simp add: num_bytes_def)
  have pos: "0 < num_bytes (dh_p d)"
    using keys by (simp add: num_bytes_pos)
  have sz: "DH_size spec_dh d = int (num_bytes (dh_p d))"
    by (simp add: spec_dh_def)
  have ss: "shared_secret y d = y ^ x mod dh_p d"
    using keys by (simp add: shared_secret_def)
  show len: "length (replicate (num_bytes (dh_p d) - length z) 0 @ z) = num_bytes (dh_p d)"
    using le by simp
  {
    assume "v \<noteq> 0"
    moreover have "DH_compute_key_padded spec_dh (Some y) d =
        (int (num_bytes (dh_p d)), replicate (num_bytes (dh_p d) - length z) 0 @ z)"
      using keys le by (simp add: spec_dh_def ss z Let_def)
    ultimately show "dh_derive spec_dh (c\<lparr>pad := v\<rparr>) key keylen outlen =
        (1, replicate (num_bytes (dh_p d) - length z) 0 @ z, of_nat (num_bytes (dh_p d)))"
      using keys buf pos by (clarsimp simp add: dh_derive_def sz Let_def)
  }
  {
    assume a: "v = 0 \<and> z \<noteq> []"
    have "DH_compute_key spec_dh (Some y) d = (int (length z), z)"
      using keys by (simp add: spec_dh_def ss z Let_def)
    then show "dh_derive spec_dh (c\<lparr>pad := v\<rparr>) key keylen outlen = (1, z, of_nat (length z))"
      using keys buf a by (clarsimp simp add: dh_derive_def sz Let_def)
    have "0 < y ^ x mod dh_p d"
      using a by (simp add: z be_bytes_empty)
    then show "hd z \<noteq> 0"
      unfolding z by (rule be_bytes_hd)
    show "length z \<le> num_bytes (dh_p d)"
      by (rule le)
  }
qed

theorem dh_pad_controls_encoding_witness:
  "dh_set_params (Some dh_ctx) (Some [\<lparr>param_key = ''pad'', param_data = Integer 1\<rparr>])
     = (1, Some (dh_ctx\<lparr>pad := 1\<rparr>))
   \<and> dh_derive spec_dh (dh_ctx\<lparr>pad := 1\<rparr>) (Some 0) 0 3 = (1, [0, 230, 169], 3)
   \<and> dh_set_params (Some (dh_ctx\<lparr>pad := 1\<rparr>))
       (Some [\<lparr>param_key = ''pad'', param_data = Integer 0\<rparr>])
     = (1, Some (dh_ctx\<lparr>pad := 0\<rparr>))
   \<and> dh_derive spec_dh (dh_ctx\<lparr>pad := 0\<rparr>) (Some 0) 0 3 = (1, [230, 169], 2)"
proof -
  let ?p1 = "[\<lparr>param_key = ''pad'', param_data = Integer 1\<rparr>]"
  let ?p0 = "[\<lparr>param_key = ''pad'', param_data = Integer 0\<rparr>]"
  have keys: "dh dh_ctx = Some alice \<and> dhpeer dh_ctx = Some bob \<and> dh_priv_key alice = Some 2
      \<and> dh_pub_key bob = Some 243 \<and> 0 < dh_p alice"
    by (simp add: dh_ctx_def alice_def bob_def)
  have keys': "dh (dh_ctx\<lparr>pad := 1\<rparr>) = Some alice \<and> dhpeer (dh_ctx\<lparr>pad := 1\<rparr>) = Some bob
      \<and> dh_priv_key alice = Some 2 \<and> dh_pub_key bob = Some 243 \<and> 0 < dh_p alice"
    by (simp add: dh_ctx_def alice_def bob_def)
  have par1: "OSSL_PARAM_locate_const ?p1 OSSL_EXCHANGE_PARAM_PAD
        = Some \<lparr>param_key = ''pad'', param_data = Integer 1\<rparr>
      \<and> OSSL_PARAM_get_int \<lparr>param_key = ''pad'', param_data = Integer 1\<rparr> = Some 1"
    by (simp add: OSSL_PARAM_locate_const_def OSSL_EXCHANGE_PARAM_PAD_def OSSL_PARAM_get_int_def)
  have par0: "OSSL_PARAM_locate_const ?p0 OSSL_EXCHANGE_PARAM_PAD
        = Some \<lparr>param_key = ''pad'', param_data = Integer 0\<rparr>
      \<and> OSSL_PARAM_get_int \<lparr>param_key = ''pad'', param_data = Integer 0\<rparr> = Some 0"
    by (simp add: OSSL_PARAM_locate_const_def OSSL_EXCHANGE_PARAM_PAD_def OSSL_PARAM_get_int_def)
  have buf: "Some (0 :: addr) \<noteq> None \<and> \<not> (3 :: size_t) < of_nat (num_bytes (dh_p alice))"
    by (simp add: alice_def num_bytes_65537)
  have z: "[230, 169] = be_bytes (243 ^ 2 mod dh_p alice)"
    by (simp add: alice_def be_bytes_59049)
  note t1 = dh_pad_controls_encoding [OF keys par1 buf z, of 0]
  note t0 = dh_pad_controls_encoding [OF keys' par0 buf z, of 0]
  have n: "num_bytes (dh_p alice) = 3"
    by (simp add: alice_def num_bytes_65537)
  show ?thesis
    using t1 t0 by (simp add: n)
qed

section \<open>Generic fetch\<close>

text \<open>
  For every operation id that is not positive the fetch returns null and leaves the
  context as it was.
\<close>

lemma fetch_requires_positive_operation_id:
  "operation_id \<le> 0 \<Longrightarrow> evp_generic_fetch K s operation_id nm props = (None, s)"
  by (simp add: evp_generic_fetch_def ossl_assert_def split: option.splits)

text \<open>
  The getter that the fetch hands to the construction tests the result of
  \<open>up_ref_method\<close>: it returns an implementation only after the callback has succeeded
  on it.
\<close>

lemma get_method_from_store_tests_up_ref:
  assumes "get_method_from_store K t st operation_id nm q = (Some m, t')"
  shows "fst (up_ref_method K m (heap t)) \<noteq> 0
    \<and> t' = t\<lparr>heap := snd (up_ref_method K m (heap t))\<rparr>"
  using assms
  by (simp add: get_method_from_store_def Let_def split: option.splits if_splits prod.splits)
    auto?

lemma fetch_non_positive: "\<not> 0 < operation_id \<Longrightarrow> fst (evp_generic_fetch K s operation_id nm props) = None"
  by (simp add: evp_generic_fetch_def ossl_assert_def split: option.splits)

lemma fetch_from_cache:
  assumes "lc_store s = Some store" and "lc_namemap s = Some namemap"
    and "0 < operation_id"
    and "ossl_namemap_name2num namemap nm \<noteq> 0"
    and "method_id (word_of_int operation_id) (of_nat (ossl_namemap_name2num namemap nm)) \<noteq> 0"
    and "cache store (method_id (word_of_int operation_id)
           (of_nat (ossl_namemap_name2num namemap nm)), props) = Some m"
  shows "evp_generic_fetch K s operation_id nm props =
    (Some m, s\<lparr>heap := snd (up_ref_method K m (heap s))\<rparr>)"
  using assms
  by (simp add: evp_generic_fetch_def ossl_assert_def Let_def ossl_method_store_cache_get_def)

text \<open>
  The getter of the source returns a method only when the name has an id and the pair a
  method id, and it leaves the name map alone: after a construction whose result comes
  from the getter, the name is registered.
\<close>

lemma get_method_from_store_registers:
  assumes "get_method_from_store K t st operation_id nm q = (Some m, t')"
  shows "\<exists>namemap. lc_namemap t' = Some namemap
    \<and> ossl_namemap_name2num namemap nm \<noteq> 0
    \<and> method_id (word_of_int operation_id) (of_nat (ossl_namemap_name2num namemap nm)) \<noteq> 0"
  using assms
  by (simp add: get_method_from_store_def Let_def split: option.splits if_splits prod.splits)
    auto?

text \<open>
  C4. If a fetch returns an implementation and the name is registered afterwards, the
  same fetch repeated at once returns the same implementation out of the query cache,
  and changes nothing but the heap, by one \<open>up_ref_method\<close> on that implementation.
\<close>

theorem fetch_idempotent:
  assumes first: "evp_generic_fetch K s operation_id nm props = (Some m, s1)"
    and reg: "registered s1 operation_id nm"
  shows "evp_generic_fetch K s1 operation_id nm props =
    (Some m, s1\<lparr>heap := snd (up_ref_method K m (heap s1))\<rparr>)"
proof -
  have pos: "0 < operation_id"
    using first fetch_non_positive [of operation_id K s nm props] by fastforce
  obtain store1 namemap1 where st1: "lc_store s1 = Some store1"
    and nm1: "lc_namemap s1 = Some namemap1"
    and id1: "ossl_namemap_name2num namemap1 nm \<noteq> 0"
    and mid1: "method_id (word_of_int operation_id)
        (of_nat (ossl_namemap_name2num namemap1 nm)) \<noteq> 0"
    using reg by (auto simp add: registered_def split: option.splits)
  have "cache store1 (method_id (word_of_int operation_id)
      (of_nat (ossl_namemap_name2num namemap1 nm)), props) = Some m"
    using first st1 nm1
    by (simp add: evp_generic_fetch_def Let_def ossl_method_store_cache_get_def
        ossl_method_store_cache_set_def split: option.splits if_splits prod.splits)
      auto?
  with st1 nm1 pos id1 mid1 show ?thesis
    by (rule fetch_from_cache)
qed

lemma canonical_SHA256: "canonical ''SHA256'' = ''sha256''"
  by (simp add: canonical_def ascii_lower_def)

lemma method_id_1_1: "method_id 1 1 = 257"
  by (simp add: method_id_def ossl_assert_def)

lemma Suc_Suc_0: "Suc (Suc 0) = 2"
  by simp

lemma example_construct:
  "ossl_method_construct example_env (the_mcm example_env) example_libctx 1 ''SHA256'' [] =
     (Some 100,
      \<lparr>lc_store = Some \<lparr>methods = [(257, [], 100)], cache = (\<lambda>k. None)\<rparr>,
       lc_namemap = Some [''sha256''],
       heap = \<lparr>refs = (\<lambda>a. 0)(100 := 2), next_free = 101\<rparr>\<rparr>)"
  by (simp add: example_env_def the_mcm_def construct_method_def destruct_method_def
      put_method_in_store_def get_method_from_store_def example_libctx_def
      ossl_namemap_add_def ossl_namemap_name2num_def canonical_SHA256 method_id_1_1
      ossl_method_store_new_def ossl_method_store_add_def Let_def Suc_Suc_0)

lemma example_first_fetch:
  "evp_generic_fetch example_env example_libctx 1 ''SHA256'' [] = (Some 100, example_after)"
  using example_construct
  by (simp add: evp_generic_fetch_def ossl_assert_def Let_def
      example_libctx_def example_after_def ossl_namemap_name2num_def canonical_SHA256
      method_id_1_1 ossl_method_store_cache_set_def)

lemma example_registered: "registered example_after 1 ''SHA256''"
  by (simp add: registered_def example_after_def ossl_namemap_name2num_def canonical_SHA256
      method_id_1_1)

theorem fetch_idempotent_witness:
  "evp_generic_fetch example_env example_libctx 1 ''SHA256'' [] = (Some 100, example_after)
   \<and> evp_generic_fetch example_env example_after 1 ''SHA256'' [] =
       (Some 100, example_after\<lparr>heap := \<lparr>refs = (\<lambda>a. 0)(100 := 3), next_free = 101\<rparr>\<rparr>)"
proof -
  have "snd (up_ref_method example_env 100 (heap example_after))
      = \<lparr>refs = (\<lambda>a. 0)(100 := 3), next_free = 101\<rparr>"
    by (simp add: example_env_def example_after_def)
  with fetch_idempotent [OF example_first_fetch example_registered] example_first_fetch
  show ?thesis
    by simp
qed

lemma saturating_construct:
  "ossl_method_construct saturating_env (the_mcm saturating_env) example_libctx 1 ''SHA256'' [] =
     (Some 100,
      \<lparr>lc_store = Some \<lparr>methods = [(257, [], 100)], cache = (\<lambda>k. None)\<rparr>,
       lc_namemap = Some [''sha256''],
       heap = \<lparr>refs = (\<lambda>a. 0)(100 := 2), next_free = 101\<rparr>\<rparr>)"
  by (simp add: saturating_env_def example_env_def the_mcm_def construct_method_def
      destruct_method_def put_method_in_store_def get_method_from_store_def example_libctx_def
      ossl_namemap_add_def ossl_namemap_name2num_def canonical_SHA256 method_id_1_1
      ossl_method_store_new_def ossl_method_store_add_def Let_def Suc_Suc_0)

lemma saturating_first_fetch:
  "evp_generic_fetch saturating_env example_libctx 1 ''SHA256'' [] = (Some 100, example_after)"
  using saturating_construct
  by (simp add: evp_generic_fetch_def ossl_assert_def Let_def
      example_libctx_def example_after_def ossl_namemap_name2num_def canonical_SHA256
      method_id_1_1 ossl_method_store_cache_set_def)

lemma saturating_up_ref:
  "up_ref_method saturating_env 100 (heap example_after) = (0, heap example_after)"
  by (simp add: saturating_env_def example_after_def)

lemma saturating_second_fetch:
  "evp_generic_fetch saturating_env example_after 1 ''SHA256'' [] = (Some 100, example_after)"
proof -
  have "evp_generic_fetch saturating_env example_after 1 ''SHA256'' [] =
      (Some 100,
       example_after\<lparr>heap := snd (up_ref_method saturating_env 100 (heap example_after))\<rparr>)"
    by (simp add: evp_generic_fetch_def ossl_assert_def Let_def example_after_def
        ossl_namemap_name2num_def canonical_SHA256 method_id_1_1
        ossl_method_store_cache_get_def)
  then show ?thesis
    by (simp add: saturating_up_ref)
qed

lemma saturating_getter:
  "get_method_from_store saturating_env example_after None 1 ''SHA256'' [] =
     (None, example_after)"
proof -
  have f: "ossl_method_store_fetch saturating_env
      \<lparr>methods = [(257, [], 100)], cache = (\<lambda>k. None)((257, []) \<mapsto> 100)\<rparr> 257 [] = Some 100"
    by (simp add: saturating_env_def example_env_def)
  have "get_method_from_store saturating_env example_after None 1 ''SHA256'' [] =
      (None,
       example_after\<lparr>heap := snd (up_ref_method saturating_env 100 (heap example_after))\<rparr>)"
    using f saturating_up_ref
    by (simp add: get_method_from_store_def Let_def example_after_def
        ossl_namemap_name2num_def canonical_SHA256 method_id_1_1)
  then show ?thesis
    by (simp add: saturating_up_ref)
qed

text \<open>
  C7 at a cache hit whose \<open>up_ref_method\<close> fails. Over the counter that holds at most two
  references, the first fetch of SHA256 constructs implementation 100 and leaves it with
  two references, the store's and the caller's. The second fetch finds it in the query
  cache; \<open>up_ref_method\<close> returns 0 and adds no reference, and the fetch returns the
  implementation all the same, its count still 2: the second caller has a pointer and
  no reference of its own. The getter, on the same state with the same callback, returns
  null.
\<close>

theorem fetch_returns_method_when_up_ref_fails:
  "evp_generic_fetch saturating_env example_libctx 1 ''SHA256'' [] = (Some 100, example_after)
   \<and> refs (heap example_after) 100 = 2
   \<and> up_ref_method saturating_env 100 (heap example_after) = (0, heap example_after)
   \<and> evp_generic_fetch saturating_env example_after 1 ''SHA256'' [] = (Some 100, example_after)
   \<and> get_method_from_store saturating_env example_after None 1 ''SHA256'' [] =
       (None, example_after)"
  using saturating_first_fetch saturating_up_ref saturating_second_fetch saturating_getter
  by (simp add: example_after_def)

end
